theory Spec2Isabelle
  imports Complex_Main "HOL-Library.Log_Nat"
begin


section \<open>Shared vocabulary\<close>

text \<open>
  The HTTP handlers of \<^verbatim>\<open>backend/main.py\<close> raise \<^verbatim>\<open>HTTPException(status_code, detail)\<close>;
  a handler of the model returns \<open>Inl\<close> of that value instead, together with the
  store as the failed call leaves it. Python's \<^verbatim>\<open>int\<close> is \<open>int\<close>, \<^verbatim>\<open>str\<close> is \<open>string\<close>.
  Failures of the persistence layer itself (file or network I/O) are outside the model.
\<close>

datatype http_error = HTTPException (status_code: int) (detail: string)

text \<open>\<^verbatim>\<open>not os.getenv(K)\<close>: the variable is unset or empty.\<close>

record env =
  GEMINI_API_KEY :: "string option"
  GROQ_API_KEY :: "string option"

definition getenv_unset :: "string option \<Rightarrow> bool" where
  "getenv_unset v = (case v of None \<Rightarrow> True | Some s \<Rightarrow> s = [])"

text \<open>\<^verbatim>\<open>s.split(c, 1)\<close> has two parts exactly when \<open>c\<close> occurs in \<open>s\<close>; \<^verbatim>\<open>s.strip()\<close> on ASCII text.\<close>

definition split_once :: "char \<Rightarrow> string \<Rightarrow> (string \<times> string) option" where
  "split_once c s =
     (if c \<in> set s
      then Some (takeWhile (\<lambda>x. x \<noteq> c) s, tl (dropWhile (\<lambda>x. x \<noteq> c) s))
      else None)"

definition is_space :: "char \<Rightarrow> bool" where
  "is_space c = (c \<in> set [CHR 0x09, CHR 0x0A, CHR 0x0B, CHR 0x0C, CHR 0x0D,
                           CHR 0x1C, CHR 0x1D, CHR 0x1E, CHR 0x1F, CHR 0x20])"

definition strip :: "string \<Rightarrow> string" where
  "strip s = rev (dropWhile is_space (rev (dropWhile is_space s)))"

section \<open>Viva sessions: \<^verbatim>\<open>viva_database.py\<close>\<close>

record viva_message =
  role :: string
  content :: string
  timestamp :: string

text \<open>The session dictionary built by \<^verbatim>\<open>start_viva\<close>; \<open>status\<close> is the stored string.\<close>

record viva_session =
  session_id :: string
  module_id :: string
  module_title :: string
  transcript :: "viva_message list"
  current_score :: int
  status :: string
  question_count :: int
  created_at :: string
  updated_at :: string

type_synonym viva_db = "string \<rightharpoonup> viva_session"

definition create_session :: "viva_db \<Rightarrow> viva_session \<Rightarrow> viva_db" where
  "create_session db session_data = db(session_id session_data \<mapsto> session_data)"

definition get_session :: "viva_db \<Rightarrow> string \<Rightarrow> viva_session option" where
  "get_session db sid = db sid"

text \<open>\<^verbatim>\<open>update_session\<close> raises \<^verbatim>\<open>ValueError\<close> on an unknown id and stamps \<open>updated_at\<close>.\<close>

definition update_session :: "viva_db \<Rightarrow> string \<Rightarrow> viva_session \<Rightarrow> string \<Rightarrow> string + viva_db" where
  "update_session db sid session_data now =
     (if db sid = None then Inl (''Session '' @ sid @ '' not found'')
      else Inr (db(sid \<mapsto> session_data\<lparr>updated_at := now\<rparr>)))"

section \<open>The voice viva handlers: \<^verbatim>\<open>start_viva\<close>, \<^verbatim>\<open>interact_viva\<close>\<close>

text \<open>
  What the agent object (\<^verbatim>\<open>VivaAgent\<close>, the content oracle) and the text-to-speech tool
  answer during one request. \<open>agent_error\<close> is the exception raised when the agent
  object cannot be obtained (\<^verbatim>\<open>main.py\<close> names \<^verbatim>\<open>VivaAgent\<close> without importing it, and its
  constructor raises without an OpenAI key); \<open>transcription\<close> is \<open>Inl\<close> when
  \<^verbatim>\<open>transcribe_audio\<close> raises. The question, reply and feedback generators catch their own
  failures and always return text. \<open>score_update\<close> is left arbitrary although the
  agent clamps it to \<open>-10..10\<close>.
\<close>

record viva_agent =
  agent_error :: "string option"
  initial_question :: string
  transcription :: "string + string"
  response_text :: string
  score_update :: int
  final_feedback :: string
  audio_base64 :: "string option"

record viva_start_request =
  req_module_id :: string
  req_module_title :: string
  req_module_description :: "string option"
  req_user_goal :: "string option"

record viva_start_response =
  start_session_id :: string
  greeting :: string
  first_question :: string
  start_audio_base64 :: "string option"

text \<open>The dictionary literal of \<^verbatim>\<open>start_viva\<close> (main.py, "Create session").\<close>

definition new_session :: "string \<Rightarrow> viva_start_request \<Rightarrow> string \<Rightarrow> string \<Rightarrow> viva_session" where
  "new_session new_id request greeting_and_question now =
     \<lparr> session_id = new_id,
       module_id = req_module_id request,
       module_title = req_module_title request,
       transcript = [\<lparr> role = ''interviewer'', content = greeting_and_question, timestamp = now \<rparr>],
       current_score = 50,
       status = ''active'',
       question_count = 1,
       created_at = now,
       updated_at = now \<rparr>"

text \<open>
  \<^verbatim>\<open>start_viva\<close> has a single \<^verbatim>\<open>except Exception\<close>, so its own 503 responses come back
  wrapped in a 500. \<open>new_id\<close> is the fresh UUID, \<open>now\<close> the clock reading.
\<close>

definition start_viva ::
  "env \<Rightarrow> viva_db \<Rightarrow> viva_start_request \<Rightarrow> viva_agent \<Rightarrow> string \<Rightarrow> string
     \<Rightarrow> (http_error + viva_start_response) \<times> viva_db" where
  "start_viva e db request agent new_id now =
     (if getenv_unset (GEMINI_API_KEY e) then
        (Inl (HTTPException 500
           ''Failed to start viva: 503: Viva Engine is not configured. GEMINI_API_KEY is missing.''), db)
      else if getenv_unset (GROQ_API_KEY e) then
        (Inl (HTTPException 500
           ''Failed to start viva: 503: Viva Engine is not configured. GROQ_API_KEY is missing.''), db)
      else case agent_error agent of
        Some err \<Rightarrow> (Inl (HTTPException 500 (''Failed to start viva: '' @ err)), db)
      | None \<Rightarrow>
          (let greeting_and_question = initial_question agent;
               parts = split_once CHR ''?'' greeting_and_question;
               session_data = new_session new_id request greeting_and_question now
           in (Inr \<lparr> start_session_id = new_id,
                     greeting = (case parts of
                                   Some (p0, p1) \<Rightarrow> p0 @ ''?''
                                 | None \<Rightarrow> ''Hey! Let's chat about '' @ req_module_title request @ ''.''),
                     first_question = (case parts of
                                   Some (p0, p1) \<Rightarrow> strip p1
                                 | None \<Rightarrow> greeting_and_question),
                     start_audio_base64 = audio_base64 agent \<rparr>,
               create_session db session_data)))"

record viva_final_result =
  fr_passed :: bool
  fr_final_score :: int
  fr_feedback :: string

record viva_interact_response =
  reply_text :: string
  resp_status :: string
  resp_current_score :: int
  resp_question_count :: int
  resp_audio_base64 :: "string option"
  final_result :: "viva_final_result option"

text \<open>
  Steps 2 to 4 of \<^verbatim>\<open>interact_viva\<close> on the loaded session dictionary: the learner's message
  is appended, the score is updated and clamped, the reply is appended, the question
  counter is incremented and the conclusion check runs. \<open>now\<close> gives the successive
  clock readings. The result is the session as handed to \<^verbatim>\<open>update_session\<close>, the reply
  text and \<^verbatim>\<open>final_result\<close>.
\<close>

definition interact_session ::
  "viva_session \<Rightarrow> string \<Rightarrow> viva_agent \<Rightarrow> (nat \<Rightarrow> string)
     \<Rightarrow> viva_session \<times> string \<times> viva_final_result option" where
  "interact_session session_data user_input agent now =
     (let s1 = session_data\<lparr>transcript := transcript session_data @
                  [\<lparr> role = ''user'', content = user_input, timestamp = now 0 \<rparr>]\<rparr>;
          s2 = s1\<lparr>current_score := current_score s1 + score_update agent\<rparr>;
          s3 = s2\<lparr>current_score := max 0 (min 100 (current_score s2))\<rparr>;
          s4 = s3\<lparr>transcript := transcript s3 @
                  [\<lparr> role = ''interviewer'', content = response_text agent, timestamp = now 1 \<rparr>]\<rparr>;
          s5 = s4\<lparr>question_count := question_count s4 + 1\<rparr>
      in if question_count s5 \<ge> 5 then
           (let has_passed = (current_score s5 \<ge> 70);
                s6 = s5\<lparr>status := (if has_passed then ''passed'' else ''failed'')\<rparr>;
                s7 = s6\<lparr>transcript := transcript s6 @
                  [\<lparr> role = ''interviewer'', content = final_feedback agent, timestamp = now 2 \<rparr>]\<rparr>
            in (s7,
                response_text agent @ [CHR 0x0A, CHR 0x0A] @ final_feedback agent,
                Some \<lparr> fr_passed = has_passed, fr_final_score = current_score s7,
                       fr_feedback = final_feedback agent \<rparr>))
         else (s5, response_text agent, None))"

text \<open>
  The handler. \<open>user_audio\<close> says whether a file was uploaded; \<^verbatim>\<open>elif user_text:\<close> takes a
  non-empty text only. The session read by \<^verbatim>\<open>get_session\<close> is a copy parsed from the
  file, so nothing is stored before \<^verbatim>\<open>update_session\<close>.
\<close>

definition interact_viva ::
  "env \<Rightarrow> viva_db \<Rightarrow> string \<Rightarrow> bool \<Rightarrow> string option \<Rightarrow> viva_agent \<Rightarrow> (nat \<Rightarrow> string)
     \<Rightarrow> (http_error + viva_interact_response) \<times> viva_db" where
  "interact_viva e db sid user_audio user_text agent now =
     (if getenv_unset (GEMINI_API_KEY e) then
        (Inl (HTTPException 503 ''Viva Engine is not configured. GEMINI_API_KEY is missing.''), db)
      else if getenv_unset (GROQ_API_KEY e) then
        (Inl (HTTPException 503 ''Viva Engine is not configured. GROQ_API_KEY is missing.''), db)
      else case get_session db sid of
        None \<Rightarrow> (Inl (HTTPException 404 ''Session not found''), db)
      | Some session_data \<Rightarrow>
          if status session_data \<noteq> ''active'' then
            (Inl (HTTPException 400 (''Session is already '' @ status session_data)), db)
          else case agent_error agent of
            Some err \<Rightarrow>
              (Inl (HTTPException 500 (''Failed to process viva interaction: '' @ err)), db)
          | None \<Rightarrow>
              (case (if user_audio then
                       (case transcription agent of
                          Inl err \<Rightarrow> Inl (HTTPException 400 (''Failed to transcribe audio: '' @ err))
                        | Inr txt \<Rightarrow> Inr txt)
                     else if user_text \<noteq> None \<and> user_text \<noteq> Some [] then Inr (the user_text)
                     else Inl (HTTPException 400 ''Either user_audio or user_text must be provided''))
               of
                 Inl err \<Rightarrow> (Inl err, db)
               | Inr user_input \<Rightarrow>
                   (case interact_session session_data user_input agent now of
                      (session_data', reply, fin) \<Rightarrow>
                        (case update_session db sid session_data' (now 3) of
                           Inl err \<Rightarrow>
                             (Inl (HTTPException 500
                                (''Failed to process viva interaction: '' @ err)), db)
                         | Inr db' \<Rightarrow>
                             (Inr \<lparr> reply_text = reply,
                                    resp_status = status session_data',
                                    resp_current_score = current_score session_data',
                                    resp_question_count = question_count session_data',
                                    resp_audio_base64 = audio_base64 agent,
                                    final_result = fin \<rparr>, db')))))"

section \<open>The text viva handler: \<^verbatim>\<open>viva_chat\<close>\<close>

text \<open>
  The module-level dictionary \<^verbatim>\<open>viva_sessions\<close>: per session the history of
  \<open>(role, content)\<close> messages, the recorded per-turn scores and the question counter.
\<close>

record chat_session =
  history :: "(string \<times> string) list"
  scores :: "int list"
  chat_question_count :: int

type_synonym viva_sessions = "string \<rightharpoonup> chat_session"

record viva_interaction =
  ia_session_id :: string
  ia_user_text :: string
  ia_module_topic :: string
  ia_target_role :: "string option"

text \<open>
  What \<^verbatim>\<open>agents/viva_agent.py\<close> answers during one request: \<^verbatim>\<open>get_interviewer_response\<close>
  returns the reply text and \<^verbatim>\<open>score_update\<close> (documented as 0 to 100, or -1 when nothing was
  graded; the number is read from the reply's JSON and passed on unchecked),
  \<^verbatim>\<open>generate_final_feedback\<close> the closing text. Both call the language model outside
  their \<^verbatim>\<open>try\<close> block, so either may raise (\<open>Inl\<close>).
\<close>

record chat_agent =
  interviewer_response :: "string + (string \<times> int)"
  chat_final_feedback :: "string + string"

record viva_response =
  reply :: string
  next_question :: string
  vr_score :: int
  cumulative_score :: int
  vr_question_count :: int
  is_complete :: bool
  vr_final_feedback :: "string option"

text \<open>
  \<^verbatim>\<open>int(a / b)\<close> for Python integers. \<^verbatim>\<open>a / b\<close> is the double nearest to the exact quotient,
  ties going to the even significand, and \<^verbatim>\<open>OverflowError\<close> when that double would be \<open>2^1024\<close>
  or more; \<^verbatim>\<open>int\<close> then truncates toward zero. \<open>round_half_even n d\<close> is the integer
  nearest to \<open>n / d\<close>. For magnitudes with quotient at least one half, \<open>e\<close> is the exponent
  of the quotient (\<open>2^e \<le> a / b < 2^(e+1)\<close>), the double is \<open>m * 2^(e - 52)\<close> with a significand
  \<open>m\<close> of 53 bits; a quotient below one half gives a double below 1 and so the integer 0.
\<close>

definition round_half_even :: "int \<Rightarrow> int \<Rightarrow> int" where
  "round_half_even n d =
     (let f = n div d; r = n mod d
      in if 2 * r < d then f else if d < 2 * r then f + 1 else if even f then f else f + 1)"

definition int_truediv_pos :: "int \<Rightarrow> int \<Rightarrow> string + int" where
  "int_truediv_pos a b =
     (if 2 * a < b then Inr 0
      else
        (let e = bitlen (2 * a div b) - 2;
             m = (if 52 \<le> e then round_half_even a (b * 2 ^ nat (e - 52))
                  else round_half_even (a * 2 ^ nat (52 - e)) b)
         in if 1024 \<le> e \<or> (e = 1023 \<and> m = 2 ^ 53)
            then Inl ''integer division result too large for a float''
            else Inr (if 52 \<le> e then m * 2 ^ nat (e - 52) else m div 2 ^ nat (52 - e))))"

definition int_truediv :: "int \<Rightarrow> int \<Rightarrow> string + int" where
  "int_truediv a b =
     (if b = 0 then Inl ''division by zero''
      else map_sum id (\<lambda>q. sgn a * sgn b * q) (int_truediv_pos \<bar>a\<bar> \<bar>b\<bar>))"

text \<open>"Split response into reply and next question".\<close>

definition split_response :: "string \<Rightarrow> string \<times> string" where
  "split_response txt =
     (case split_once CHR ''?'' txt of
        Some (p0, p1) \<Rightarrow>
          (strip p0 @ ''?'', if strip p1 = [] then ''Continue.'' else strip p1)
      | None \<Rightarrow>
          (case split_once CHR ''.'' txt of
             Some (p0, p1) \<Rightarrow> (strip p0 @ ''.'', strip p1)
           | None \<Rightarrow> (txt, [])))"

text \<open>
  The handler mutates the session object held in \<^verbatim>\<open>viva_sessions\<close> as it goes, so what it
  has written before an exception stays written. Every exception leaves as a 500.
\<close>

definition viva_chat ::
  "viva_sessions \<Rightarrow> viva_interaction \<Rightarrow> chat_agent \<Rightarrow> (http_error + viva_response) \<times> viva_sessions" where
  "viva_chat sessions interaction agent =
     (let sid = ia_session_id interaction;
          sessions1 = (if sid \<notin> dom sessions
                       then sessions(sid \<mapsto> \<lparr> history = [], scores = [], chat_question_count = 0 \<rparr>)
                       else sessions);
          session = the (sessions1 sid);
          session1 = session\<lparr>history := history session @ [(''user'', ia_user_text interaction)]\<rparr>
      in case interviewer_response agent of
           Inl err \<Rightarrow>
             (Inl (HTTPException 500 (''Failed to process viva interaction: '' @ err)),
              sessions1(sid \<mapsto> session1))
         | Inr (txt, upd) \<Rightarrow>
             (let (reply_part, question_part) = split_response txt;
                  turn_score = (if upd \<ge> 0 then upd else 0);
                  full_response = strip (reply_part @ '' '' @ question_part);
                  session2 = session1\<lparr>history := history session1 @ [(''assistant'', full_response)]\<rparr>;
                  session3 = (if upd \<ge> 0
                              then session2\<lparr>scores := scores session2 @ [turn_score],
                                            chat_question_count := chat_question_count session2 + 1\<rparr>
                              else session2);
                  sessions3 = sessions1(sid \<mapsto> session3)
              in case (if length (scores session3) > 0
                       then int_truediv (sum_list (scores session3))
                                        (int (length (scores session3)))
                       else Inr 0) of
                   Inl err \<Rightarrow>
                     (Inl (HTTPException 500 (''Failed to process viva interaction: '' @ err)),
                      sessions3)
                 | Inr cumulative \<Rightarrow>
                     (let complete = (chat_question_count session3 \<ge> 5)
                      in case (if complete then map_sum id Some (chat_final_feedback agent)
                               else Inr None) of
                           Inl err \<Rightarrow>
                             (Inl (HTTPException 500
                                (''Failed to process viva interaction: '' @ err)), sessions3)
                         | Inr feedback \<Rightarrow>
                             (Inr \<lparr> reply = reply_part,
                                    next_question = question_part,
                                    vr_score = turn_score,
                                    cumulative_score = cumulative,
                                    vr_question_count = chat_question_count session3,
                                    is_complete = complete,
                                    vr_final_feedback = feedback \<rparr>,
                              sessions3))))"

text \<open>
  \<^verbatim>\<open>start_simple_viva\<close>: \<open>new_id\<close> is the fresh UUID, \<open>question\<close> what
  \<^verbatim>\<open>generate_initial_question\<close> answers (\<open>Inl\<close> when it raises). It returns the session id
  and the first question.
\<close>

definition start_simple_viva ::
  "viva_sessions \<Rightarrow> string \<Rightarrow> string + string
     \<Rightarrow> (http_error + string \<times> string) \<times> viva_sessions" where
  "start_simple_viva sessions new_id question =
     (case question of
        Inl err \<Rightarrow> (Inl (HTTPException 500 (''Failed to start viva: '' @ err)), sessions)
      | Inr q \<Rightarrow>
          (Inr (new_id, q),
           sessions(new_id \<mapsto> \<lparr> history = [(''interviewer'', q)], scores = [],
                                  chat_question_count = 0 \<rparr>)))"

section \<open>The unlock cascade: \<^verbatim>\<open>complete_viva\<close>\<close>

text \<open>
  A module of the stored roadmap (\<^verbatim>\<open>LearningModule\<close>); the handler works on the stored
  dictionaries, whose \<open>status\<close> is a string ("pending", "active", "completed").
\<close>

record learning_module =
  lm_title :: string
  lm_description :: string
  lm_week :: int
  lm_status :: string
  lm_resources :: "string list"
  lm_viva_score :: "int option"

record roadmap =
  rm_user_id :: string
  rm_modules :: "learning_module list"

record user_data =
  ud_uid :: string
  ud_onboarding_completed :: bool
  ud_roadmap :: "roadmap option"
  ud_updated_at :: string

type_synonym users = "string \<rightharpoonup> user_data"

record viva_complete_request =
  cr_user_id :: string
  cr_module_id :: string
  cr_final_score :: int

text \<open>The response without its \<^verbatim>\<open>message\<close> text, which is formatted from the other fields.\<close>

record viva_complete_response =
  success :: bool
  passed :: bool
  unlocked_module_id :: "string option"

definition get_user :: "users \<Rightarrow> string \<Rightarrow> user_data option" where
  "get_user us uid = us uid"

definition update_user_roadmap :: "users \<Rightarrow> string \<Rightarrow> roadmap \<Rightarrow> string \<Rightarrow> string + users" where
  "update_user_roadmap us uid rm now =
     (case us uid of
        None \<Rightarrow> Inl (''User '' @ uid @ '' not found'')
      | Some u \<Rightarrow> Inr (us(uid \<mapsto> u\<lparr>ud_roadmap := Some rm, ud_onboarding_completed := True,
                                    ud_updated_at := now\<rparr>)))"

text \<open>"Find the current module by title": the first index whose title is the requested one.\<close>

fun find_module_index :: "string \<Rightarrow> learning_module list \<Rightarrow> nat option" where
  "find_module_index t [] = None"
| "find_module_index t (m # ms) =
     (if lm_title m = t then Some 0 else map_option Suc (find_module_index t ms))"

text \<open>The updates of the module list between "Check if passed" and "Save updated roadmap".\<close>

definition cascade :: "learning_module list \<Rightarrow> nat \<Rightarrow> int \<Rightarrow> learning_module list \<times> string option" where
  "cascade modules current_module_index final_score =
     (let has_passed = (final_score \<ge> 70);
          modules1 = modules[current_module_index :=
                       (modules ! current_module_index)\<lparr>lm_viva_score := Some final_score\<rparr>]
      in if has_passed then
           (let modules2 = modules1[current_module_index :=
                             (modules1 ! current_module_index)\<lparr>lm_status := ''completed''\<rparr>]
            in if current_module_index + 1 < length modules2 then
                 (modules2[current_module_index + 1 :=
                             (modules2 ! (current_module_index + 1))\<lparr>lm_status := ''active''\<rparr>],
                  Some (lm_title (modules2 ! (current_module_index + 1))))
               else (modules2, None))
         else
           (modules1[current_module_index :=
                       (modules1 ! current_module_index)\<lparr>lm_status := ''pending''\<rparr>], None))"

definition complete_viva ::
  "users \<Rightarrow> viva_complete_request \<Rightarrow> string \<Rightarrow> (http_error + viva_complete_response) \<times> users" where
  "complete_viva us request now =
     (case get_user us (cr_user_id request) of
        None \<Rightarrow> (Inl (HTTPException 404 (''User '' @ cr_user_id request @ '' not found'')), us)
      | Some user \<Rightarrow>
          (case ud_roadmap user of
             None \<Rightarrow>
               (Inl (HTTPException 404 (''No roadmap found for user '' @ cr_user_id request)), us)
           | Some rm \<Rightarrow>
               if rm_modules rm = [] then
                 (Inl (HTTPException 404 ''No modules found in roadmap''), us)
               else
                 (case find_module_index (cr_module_id request) (rm_modules rm) of
                    None \<Rightarrow>
                      (Inl (HTTPException 404
                         (''Module '' @ [CHR 0x27] @ cr_module_id request @ [CHR 0x27]
                            @ '' not found in roadmap'')), us)
                  | Some current_module_index \<Rightarrow>
                      (case cascade (rm_modules rm) current_module_index (cr_final_score request) of
                         (modules', unlocked) \<Rightarrow>
                           (case update_user_roadmap us (cr_user_id request)
                                   (rm\<lparr>rm_modules := modules'\<rparr>) now of
                              Inl err \<Rightarrow>
                                (Inl (HTTPException 500 (''Failed to complete viva: '' @ err)), us)
                            | Inr us' \<Rightarrow>
                                (Inr \<lparr> success = True,
                                       passed = (cr_final_score request \<ge> 70),
                                       unlocked_module_id = unlocked \<rparr>, us'))))))"



section \<open>The scheduler: \<^verbatim>\<open>agents/scheduler_agent.py\<close>\<close>

datatype ActivityType = learning | coding_practice | viva | remedial

record TimeSlot =
  day :: string
  start_time :: string
  duration_minutes :: int
  activity_type :: ActivityType

datatype ModuleStatusScheduler = locked | unlocked | completed | failed

record LearningModuleScheduler =
  sm_id :: string
  sm_title :: string
  prerequisites :: "string list"
  estimated_hours :: int
  sm_status :: ModuleStatusScheduler
  viva_passed :: bool

record UserSchedule =
  us_user_id :: string
  us_goal :: string
  us_start_date :: int
  daily_commitment_hours :: int
  preferred_language :: string
  us_modules :: "LearningModuleScheduler list"
  us_calendar :: "TimeSlot list"

datatype py_error = ValueError string | ZeroDivisionError | OverflowError | OracleError string

text \<open>
  A \<^verbatim>\<open>datetime.date\<close> is its proleptic Gregorian ordinal (\<^verbatim>\<open>date.toordinal()\<close>), from 1
  (0001-01-01, a Monday) to 3652059 (9999-12-31). \<^verbatim>\<open>d + timedelta(days=n)\<close> raises
  \<^verbatim>\<open>OverflowError\<close> when \<open>n\<close> exceeds the range of a timedelta or the sum leaves the range
  of dates; \<^verbatim>\<open>d.weekday()\<close> counts from Monday = 0.
\<close>

definition MAXORDINAL :: int where
  "MAXORDINAL = 3652059"

definition date_add :: "int \<Rightarrow> int \<Rightarrow> py_error + int" where
  "date_add d n =
     (if \<bar>n\<bar> > 999999999 then Inl OverflowError
      else if d + n < 1 \<or> d + n > MAXORDINAL then Inl OverflowError
      else Inr (d + n))"

definition weekday :: "int \<Rightarrow> nat" where
  "weekday d = nat ((d + 6) mod 7)"

definition days_of_week :: "string list" where
  "days_of_week = [''Monday'', ''Tuesday'', ''Wednesday'', ''Thursday'', ''Friday'',
                   ''Saturday'', ''Sunday'']"

text \<open>
  The inner loop of \<^verbatim>\<open>_create_calendar_from_modules\<close>, \<^verbatim>\<open>for day_offset in range(days_needed)\<close>,
  over the offsets still to do; \<open>cal\<close> is the calendar list being appended to.
\<close>

fun learning_sessions ::
  "int \<Rightarrow> int \<Rightarrow> int \<Rightarrow> nat list \<Rightarrow> TimeSlot list \<Rightarrow> py_error + TimeSlot list" where
  "learning_sessions current_date daily_minutes total_minutes_needed [] cal = Inr cal"
| "learning_sessions current_date daily_minutes total_minutes_needed (day_offset # rest) cal =
     (case date_add current_date (int day_offset) of
        Inl err \<Rightarrow> Inl err
      | Inr scheduled_date \<Rightarrow>
          (let day_name = days_of_week ! weekday scheduled_date;
               remaining_minutes = total_minutes_needed - (int day_offset * daily_minutes);
               session_minutes = min daily_minutes remaining_minutes;
               time_slot = \<lparr> day = day_name, start_time = ''18:00'',
                             duration_minutes = session_minutes, activity_type = learning \<rparr>
           in learning_sessions current_date daily_minutes total_minutes_needed rest
                (cal @ [time_slot])))"

text \<open>
  The outer loop, \<^verbatim>\<open>for module in modules\<close>, with the running \<open>current_date\<close> and calendar.
  \<^verbatim>\<open>//\<close> is floor division and raises on a zero divisor; \<^verbatim>\<open>range(n)\<close> is empty for \<open>n \<le> 0\<close>.
\<close>

fun schedule_modules ::
  "LearningModuleScheduler list \<Rightarrow> int \<Rightarrow> int \<Rightarrow> TimeSlot list \<Rightarrow> py_error + TimeSlot list" where
  "schedule_modules [] daily_minutes current_date cal = Inr cal"
| "schedule_modules (m # rest) daily_minutes current_date cal =
     (if sm_status m = completed then schedule_modules rest daily_minutes current_date cal
      else if daily_minutes = 0 then Inl ZeroDivisionError
      else
        (let total_minutes_needed = estimated_hours m * 60;
             days_needed = (total_minutes_needed + daily_minutes - 1) div daily_minutes
         in case learning_sessions current_date daily_minutes total_minutes_needed
                   [0..<nat days_needed] cal of
              Inl err \<Rightarrow> Inl err
            | Inr cal1 \<Rightarrow>
               (case date_add current_date days_needed of
                  Inl err \<Rightarrow> Inl err
                | Inr practice_date \<Rightarrow>
                   (case date_add practice_date 1 of
                      Inl err \<Rightarrow> Inl err
                    | Inr viva_date \<Rightarrow>
                       (case date_add viva_date 1 of
                          Inl err \<Rightarrow> Inl err
                        | Inr next_date \<Rightarrow>
                            schedule_modules rest daily_minutes next_date
                              (cal1 @
                               [\<lparr> day = days_of_week ! weekday practice_date, start_time = ''18:00'',
                                   duration_minutes = 60, activity_type = coding_practice \<rparr>,
                                \<lparr> day = days_of_week ! weekday viva_date, start_time = ''18:00'',
                                   duration_minutes = 30, activity_type = viva \<rparr>]))))))"

definition create_calendar_from_modules ::
  "LearningModuleScheduler list \<Rightarrow> int \<Rightarrow> int \<Rightarrow> py_error + TimeSlot list" where
  "create_calendar_from_modules mods time_per_day start_date =
     schedule_modules mods (time_per_day * 60) start_date []"

text \<open>
  The allocator as the specification words it, for comparison with the code: per module
  not yet completed, \<open>ceil(estimated_hours*60 / (daily_hours*60))\<close> study slots from the
  cursor on, the last of the remainder, then practice and assessment on the two following
  days, and the cursor moved to the day after the assessment.
\<close>

definition day_label :: "int \<Rightarrow> string" where
  "day_label d = days_of_week ! weekday d"

definition spec_days_needed :: "int \<Rightarrow> int \<Rightarrow> int" where
  "spec_days_needed hours daily_hours =
     \<lceil>real_of_int (hours * 60) / real_of_int (daily_hours * 60)\<rceil>"

definition spec_slot :: "int \<Rightarrow> int \<Rightarrow> ActivityType \<Rightarrow> TimeSlot" where
  "spec_slot d minutes kind =
     \<lparr> day = day_label d, start_time = ''18:00'', duration_minutes = minutes, activity_type = kind \<rparr>"

definition spec_module_slots :: "int \<Rightarrow> int \<Rightarrow> int \<Rightarrow> TimeSlot list" where
  "spec_module_slots hours daily_hours cursor =
     (let total_minutes = hours * 60;
          daily_minutes = daily_hours * 60;
          n = spec_days_needed hours daily_hours
      in map (\<lambda>i. spec_slot (cursor + int i)
                     (if int i = n - 1 then total_minutes - (n - 1) * daily_minutes
                      else daily_minutes) learning) [0..<nat n]
         @ [spec_slot (cursor + n) 60 coding_practice,
            spec_slot (cursor + n + 1) 30 viva])"

fun spec_allocate :: "LearningModuleScheduler list \<Rightarrow> int \<Rightarrow> int \<Rightarrow> TimeSlot list" where
  "spec_allocate [] daily_hours cursor = []"
| "spec_allocate (m # ms) daily_hours cursor =
     (if sm_status m = completed then spec_allocate ms daily_hours cursor
      else spec_module_slots (estimated_hours m) daily_hours cursor
           @ spec_allocate ms daily_hours
               (cursor + spec_days_needed (estimated_hours m) daily_hours + 2))"

fun spec_final_cursor :: "LearningModuleScheduler list \<Rightarrow> int \<Rightarrow> int \<Rightarrow> int" where
  "spec_final_cursor [] daily_hours cursor = cursor"
| "spec_final_cursor (m # ms) daily_hours cursor =
     (if sm_status m = completed then spec_final_cursor ms daily_hours cursor
      else spec_final_cursor ms daily_hours
             (cursor + spec_days_needed (estimated_hours m) daily_hours + 2))"

text \<open>
  Step 1 of \<^verbatim>\<open>replan_after_failure\<close>: the first module with the given id is marked, and
  the loop stops there; \<open>None\<close> when no module has the id.
\<close>

fun mark_failed ::
  "string \<Rightarrow> LearningModuleScheduler list
     \<Rightarrow> (LearningModuleScheduler \<times> LearningModuleScheduler list) option" where
  "mark_failed failed_module_id [] = None"
| "mark_failed failed_module_id (m # ms) =
     (if sm_id m = failed_module_id
      then Some (m\<lparr>sm_status := failed, viva_passed := False\<rparr>,
                 m\<lparr>sm_status := failed, viva_passed := False\<rparr> # ms)
      else map_option (\<lambda>(found, ms'). (found, m # ms')) (mark_failed failed_module_id ms))"

text \<open>\<^verbatim>\<open>list.index\<close>: the first position of the element, \<open>None\<close> where Python raises.\<close>

fun index_of :: "'a \<Rightarrow> 'a list \<Rightarrow> nat option" where
  "index_of x [] = None"
| "index_of x (y # ys) = (if y = x then Some 0 else map_option Suc (index_of x ys))"

text \<open>The loop of \<^verbatim>\<open>_insert_and_shift_calendar\<close>; \<open>updated_calendar\<close> is the list being built.\<close>

fun shift_slots :: "TimeSlot list \<Rightarrow> int \<Rightarrow> TimeSlot list \<Rightarrow> py_error + TimeSlot list" where
  "shift_slots [] shift_days updated_calendar = Inr updated_calendar"
| "shift_slots (slot # rest) shift_days updated_calendar =
     (case index_of (day slot) days_of_week of
        None \<Rightarrow> Inl (ValueError (day slot @ '' is not in list''))
      | Some current_day_index \<Rightarrow>
          (let new_day_index = (int current_day_index + shift_days) mod 7;
               new_day = days_of_week ! nat new_day_index;
               shifted_slot = \<lparr> day = new_day, start_time = start_time slot,
                                duration_minutes = duration_minutes slot,
                                activity_type = activity_type slot \<rparr>
           in shift_slots rest shift_days (updated_calendar @ [shifted_slot])))"

definition insert_and_shift_calendar ::
  "TimeSlot list \<Rightarrow> TimeSlot \<Rightarrow> int \<Rightarrow> py_error + TimeSlot list" where
  "insert_and_shift_calendar cal new_slot shift_days = shift_slots cal shift_days [new_slot]"

text \<open>
  \<^verbatim>\<open>replan_after_failure\<close> works on the schedule object in place. The result is the exception
  it raises, if any, and the schedule object as the call leaves it (the returned object
  when there is no exception). \<open>remedial_focus\<close> is what the language model answers
  (\<open>Inl\<close> when the call raises), \<open>today\<close> is \<^verbatim>\<open>date.today()\<close>.
\<close>

definition replan_after_failure ::
  "UserSchedule \<Rightarrow> string \<Rightarrow> string + string \<Rightarrow> int \<Rightarrow> py_error option \<times> UserSchedule" where
  "replan_after_failure current_schedule failed_module_id remedial_focus today =
     (case mark_failed failed_module_id (us_modules current_schedule) of
        None \<Rightarrow>
          (Some (ValueError (''Module '' @ failed_module_id @ '' not found in schedule'')),
           current_schedule)
      | Some (failed_module, mods) \<Rightarrow>
          (let schedule1 = current_schedule\<lparr>us_modules := mods\<rparr>
           in case remedial_focus of
                Inl err \<Rightarrow> (Some (OracleError err), schedule1)
              | Inr focus \<Rightarrow>
                 (case date_add today 1 of
                    Inl err \<Rightarrow> (Some err, schedule1)
                  | Inr tomorrow \<Rightarrow>
                     (let remedial_slot = \<lparr> day = days_of_week ! weekday tomorrow,
                                             start_time = ''18:00'', duration_minutes = 120,
                                             activity_type = remedial \<rparr>
                      in case insert_and_shift_calendar (us_calendar schedule1) remedial_slot 1 of
                           Inl err \<Rightarrow> (Some err, schedule1)
                         | Inr updated_calendar \<Rightarrow>
                             (None, schedule1\<lparr>us_calendar := updated_calendar\<rparr>)))))"

section \<open>Notions used to state the claims\<close>

text \<open>
  The text session a call of \<^verbatim>\<open>viva_chat\<close> starts from: the stored one, or the fresh one the
  handler creates for an unknown id.
\<close>

definition chat_session_of :: "viva_sessions \<Rightarrow> string \<Rightarrow> chat_session" where
  "chat_session_of sessions sid =
     (case sessions sid of
        None \<Rightarrow> \<lparr> history = [], scores = [], chat_question_count = 0 \<rparr>
      | Some cs \<Rightarrow> cs)"

text \<open>
  The specification's shift: a day label advanced by \<open>n\<close> days modulo 7, and the slot that
  differs from the original in its day label only.
\<close>

definition spec_advance_day :: "int \<Rightarrow> string \<Rightarrow> string" where
  "spec_advance_day n d =
     (case index_of d days_of_week of
        None \<Rightarrow> d
      | Some i \<Rightarrow> days_of_week ! nat ((int i + n) mod 7))"

definition spec_shifted :: "int \<Rightarrow> TimeSlot \<Rightarrow> TimeSlot" where
  "spec_shifted n slot = slot\<lparr>day := spec_advance_day n (day slot)\<rparr>"

section \<open>Reachable session stores and sample inputs\<close>

text \<open>
  The stores of voice sessions that the two handlers can produce from the empty store,
  whatever the requests, the agent's answers and the clock.
\<close>

inductive reachable_db :: "viva_db \<Rightarrow> bool" where
  reachable_empty: "reachable_db Map.empty"
| reachable_start:
    "reachable_db db \<Longrightarrow> start_viva e db request agent new_id now = (r, db')
       \<Longrightarrow> reachable_db db'"
| reachable_interact:
    "reachable_db db \<Longrightarrow> interact_viva e db sid user_audio user_text agent clock = (r, db')
       \<Longrightarrow> reachable_db db'"

text \<open>
  The stores of text sessions that \<^verbatim>\<open>start_simple_viva\<close> and \<^verbatim>\<open>viva_chat\<close> can produce from
  the empty dictionary, whatever the turns and the agent's answers.
\<close>

inductive reachable_chat :: "viva_sessions \<Rightarrow> bool" where
  chat_empty: "reachable_chat Map.empty"
| chat_start:
    "reachable_chat sessions \<Longrightarrow> start_simple_viva sessions new_id question = (r0, sessions')
       \<Longrightarrow> reachable_chat sessions'"
| chat_turn:
    "reachable_chat sessions \<Longrightarrow> viva_chat sessions interaction agent = (r, sessions')
       \<Longrightarrow> reachable_chat sessions'"

text \<open>Sample inputs on which the theorems below are exercised.\<close>

definition demo_env :: env where
  "demo_env = \<lparr> GEMINI_API_KEY = Some ''g-key'', GROQ_API_KEY = Some ''q-key'' \<rparr>"

definition demo_agent :: "int \<Rightarrow> viva_agent" where
  "demo_agent delta =
     \<lparr> agent_error = None, initial_question = ''Hello. What is a commit?'',
       transcription = Inr ''spoken answer'', response_text = ''I see. And a branch?'',
       score_update = delta, final_feedback = ''Thank you.'', audio_base64 = None \<rparr>"

text \<open>
  The agent as \<^verbatim>\<open>main.py\<close> obtains it: the name \<^verbatim>\<open>VivaAgent\<close> is bound nowhere in the module,
  so the call \<^verbatim>\<open>VivaAgent()\<close> raises \<^verbatim>\<open>NameError\<close> and no answer is ever asked for.
\<close>

definition repository_agent :: viva_agent where
  "repository_agent =
     \<lparr> agent_error = Some ''name 'VivaAgent' is not defined'', initial_question = [],
       transcription = Inl [], response_text = [], score_update = 0, final_feedback = [],
       audio_base64 = None \<rparr>"

definition demo_request :: viva_start_request where
  "demo_request = \<lparr> req_module_id = ''m1'', req_module_title = ''Git Basics'',
                    req_module_description = None, req_user_goal = None \<rparr>"

definition demo_clock :: "nat \<Rightarrow> string" where
  "demo_clock n = ''t''"

definition demo_session :: "string \<Rightarrow> int \<Rightarrow> int \<Rightarrow> viva_session" where
  "demo_session st sc qc =
     \<lparr> session_id = ''s1'', module_id = ''m1'', module_title = ''Git Basics'',
       transcript = [], current_score = sc, status = st, question_count = qc,
       created_at = ''t'', updated_at = ''t'' \<rparr>"




definition demo_interaction :: viva_interaction where
  "demo_interaction = \<lparr> ia_session_id = ''c1'', ia_user_text = ''continue'',
                        ia_module_topic = ''Git Basics'', ia_target_role = None \<rparr>"

definition demo_chat_agent :: "int \<Rightarrow> chat_agent" where
  "demo_chat_agent upd = \<lparr> interviewer_response = Inr (''Fine. What is a branch?'', upd),
                           chat_final_feedback = Inr ''Done.'' \<rparr>"

definition demo_slot :: "string \<Rightarrow> TimeSlot" where
  "demo_slot d = \<lparr> day = d, start_time = ''18:00'', duration_minutes = 120,
                   activity_type = learning \<rparr>"

definition demo_sched_module :: "string \<Rightarrow> int \<Rightarrow> ModuleStatusScheduler \<Rightarrow> LearningModuleScheduler" where
  "demo_sched_module i h st =
     \<lparr> sm_id = i, sm_title = ''Module '' @ i, prerequisites = [], estimated_hours = h,
       sm_status = st, viva_passed = False \<rparr>"

definition demo_schedule :: "ModuleStatusScheduler \<Rightarrow> UserSchedule" where
  "demo_schedule st =
     \<lparr> us_user_id = ''u1'', us_goal = ''MLOps'', us_start_date = 739000,
       daily_commitment_hours = 2, preferred_language = ''Python'',
       us_modules = [demo_sched_module ''module_1'' 10 st,
                     demo_sched_module ''module_2'' 6 locked],
       us_calendar = [demo_slot ''Sunday'', demo_slot ''Monday''] \<rparr>"

definition demo_curriculum :: "LearningModuleScheduler list" where
  "demo_curriculum =
     [demo_sched_module ''module_0'' 8 completed, demo_sched_module ''module_1'' 10 unlocked,
      demo_sched_module ''module_2'' 6 locked, demo_sched_module ''module_3'' 5 locked]"

section \<open>Facts about the voice handlers\<close>

lemma interact_session_score:
  "current_score (fst (interact_session s u a now)) = max 0 (min 100 (current_score s + score_update a))"
  by (simp add: interact_session_def Let_def)

lemma interact_session_count:
  "question_count (fst (interact_session s u a now)) = question_count s + 1"
  by (simp add: interact_session_def Let_def)

lemma interact_session_status:
  "status (fst (interact_session s u a now)) =
     (if 5 \<le> question_count s + 1
      then (if 70 \<le> max 0 (min 100 (current_score s + score_update a)) then ''passed'' else ''failed'')
      else status s)"
  by (simp add: interact_session_def Let_def)


lemma interact_viva_Inr:
  assumes "interact_viva e db sid ua ut agent now = (Inr r, db')"
  shows "\<exists>s u. db sid = Some s \<and> status s = ''active''
           \<and> db' = db(sid \<mapsto> (fst (interact_session s u agent now))\<lparr>updated_at := now 3\<rparr>)
           \<and> resp_status r = status (fst (interact_session s u agent now))
           \<and> resp_current_score r = current_score (fst (interact_session s u agent now))
           \<and> resp_question_count r = question_count (fst (interact_session s u agent now))
           \<and> final_result r = snd (snd (interact_session s u agent now))"
  using assms
  apply (auto simp: interact_viva_def get_session_def update_session_def
           split: if_splits option.splits sum.splits prod.splits)
   apply (metis fst_conv snd_conv)
  apply (metis fst_conv snd_conv)
  done

lemma interact_viva_Inl:
  assumes "interact_viva e db sid ua ut agent now = (Inl err, db')"
  shows "db' = db"
  using assms
  by (auto simp: interact_viva_def get_session_def update_session_def
           split: if_splits option.splits sum.splits prod.splits)

lemma start_viva_Inr:
  assumes "start_viva e db request agent new_id now = (Inr r, db')"
  shows "db' = db(new_id \<mapsto> new_session new_id request (initial_question agent) now)"
  using assms
  by (auto simp: start_viva_def create_session_def new_session_def Let_def
           split: if_splits option.splits)

lemma start_viva_Inl:
  assumes "start_viva e db request agent new_id now = (Inl err, db')"
  shows "db' = db"
  using assms
  by (auto simp: start_viva_def Let_def split: if_splits option.splits)

lemma reachable_db_invariant:
  "reachable_db db \<Longrightarrow> db sid = Some s \<Longrightarrow>
     0 \<le> current_score s \<and> current_score s \<le> 100 \<and>
     ((status s = ''active'' \<and> 1 \<le> question_count s \<and> question_count s < 5) \<or>
      (question_count s = 5 \<and> status s = (if 70 \<le> current_score s then ''passed'' else ''failed'')))"
proof (induction arbitrary: sid s rule: reachable_db.induct)
  case reachable_empty
  then show ?case by simp
next
  case (reachable_start db e request agent new_id now r db')
  show ?case
  proof (cases r)
    case (Inl err)
    with reachable_start have "db' = db" by (simp add: start_viva_Inl)
    with reachable_start show ?thesis by blast
  next
    case (Inr resp)
    with reachable_start
    have db': "db' = db(new_id \<mapsto> new_session new_id request (initial_question agent) now)"
      by (simp add: start_viva_Inr)
    show ?thesis
    proof (cases "sid = new_id")
      case True
      with db' reachable_start.prems have "s = new_session new_id request (initial_question agent) now"
        by simp
      then show ?thesis by (simp add: new_session_def)
    next
      case False
      with db' reachable_start.prems have "db sid = Some s" by simp
      then show ?thesis by (rule reachable_start.IH)
    qed
  qed
next
  case (reachable_interact db e sid0 user_audio user_text agent clock r db')
  show ?case
  proof (cases r)
    case (Inl err)
    with reachable_interact have "db' = db" by (simp add: interact_viva_Inl)
    with reachable_interact show ?thesis by blast
  next
    case (Inr resp)
    with reachable_interact obtain s0 u where
      s0: "db sid0 = Some s0" "status s0 = ''active''"
      and db': "db' = db(sid0 \<mapsto> (fst (interact_session s0 u agent clock))\<lparr>updated_at := clock 3\<rparr>)"
      using interact_viva_Inr by blast
    show ?thesis
    proof (cases "sid = sid0")
      case True
      with db' reachable_interact.prems
      have s: "s = (fst (interact_session s0 u agent clock))\<lparr>updated_at := clock 3\<rparr>" by simp
      from reachable_interact.IH [OF s0(1)] s0(2)
      have q: "1 \<le> question_count s0" "question_count s0 < 5" by (auto split: if_splits)
      have sc: "current_score s = max 0 (min 100 (current_score s0 + score_update agent))"
        by (simp add: s interact_session_score)
      have qc: "question_count s = question_count s0 + 1"
        by (simp add: s interact_session_count)
      have st: "status s = (if 5 \<le> question_count s0 + 1
                 then (if 70 \<le> max 0 (min 100 (current_score s0 + score_update agent))
                       then ''passed'' else ''failed'')
                 else status s0)"
        by (simp add: s interact_session_status)
      from q sc qc st s0(2) show ?thesis by auto
    next
      case False
      with db' reachable_interact.prems have "db sid = Some s" by simp
      then show ?thesis by (rule reachable_interact.IH)
    qed
  qed
qed

lemma demo_interact_runs:
  "\<exists>r. interact_viva demo_env [''s1'' \<mapsto> demo_session ''active'' sc qc] ''s1'' False (Some ''x'')
      (demo_agent d) demo_clock
    = (Inr r, snd (interact_viva demo_env [''s1'' \<mapsto> demo_session ''active'' sc qc] ''s1'' False
         (Some ''x'') (demo_agent d) demo_clock))"
  by (simp add: interact_viva_def demo_env_def demo_session_def demo_agent_def
      get_session_def update_session_def getenv_unset_def split: prod.splits)

lemma demo_start_runs:
  "\<exists>r. start_viva demo_env db demo_request (demo_agent d) ''s1'' ''t''
    = (Inr r, snd (start_viva demo_env db demo_request (demo_agent d) ''s1'' ''t''))"
  by (simp add: start_viva_def demo_env_def demo_agent_def getenv_unset_def Let_def)


section \<open>Facts about the unlock cascade\<close>




section \<open>Facts about the cascade on the module list\<close>






lemma complete_viva_Inl:
  "complete_viva us request now = (Inl err, us') \<Longrightarrow> us' = us"
  by (auto simp: complete_viva_def split: option.splits if_splits prod.splits sum.splits)












section \<open>Facts about replanning\<close>

lemma mark_failed_Some:
  "mark_failed fid ms = Some (f, ms') \<Longrightarrow>
     \<exists>i<length ms. sm_id (ms ! i) = fid \<and> (\<forall>j<i. sm_id (ms ! j) \<noteq> fid)
        \<and> f = (ms ! i)\<lparr>sm_status := failed, viva_passed := False\<rparr>
        \<and> ms' = ms[i := (ms ! i)\<lparr>sm_status := failed, viva_passed := False\<rparr>]"
proof (induction ms arbitrary: f ms')
  case Nil
  then show ?case by simp
next
  case (Cons m ms)
  show ?case
  proof (cases "sm_id m = fid")
    case True
    with Cons.prems show ?thesis by (intro exI [of _ 0]) auto
  next
    case False
    with Cons.prems obtain ms0 where r: "mark_failed fid ms = Some (f, ms0)" and ms': "ms' = m # ms0"
      by auto
    from Cons.IH [OF r] obtain i where i: "i < length ms" "sm_id (ms ! i) = fid"
      "\<forall>j<i. sm_id (ms ! j) \<noteq> fid" "f = (ms ! i)\<lparr>sm_status := failed, viva_passed := False\<rparr>"
      "ms0 = ms[i := (ms ! i)\<lparr>sm_status := failed, viva_passed := False\<rparr>]"
      by blast
    have "\<forall>j<Suc i. sm_id ((m # ms) ! j) \<noteq> fid"
      using False i(3) by (auto simp: nth_Cons')
    with i ms' show ?thesis by (intro exI [of _ "Suc i"]) auto
  qed
qed

lemma mark_failed_present:
  "fid \<in> sm_id ` set ms \<Longrightarrow> \<exists>f ms'. mark_failed fid ms = Some (f, ms')"
  by (induction ms) auto

lemma replan_modules:
  assumes "mark_failed fid (us_modules sched) = Some (f, ms')"
  shows "us_modules (snd (replan_after_failure sched fid focus today)) = ms'"
  using assms
  by (auto simp: replan_after_failure_def Let_def split: sum.splits)

lemma index_of_mem: "x \<in> set xs \<Longrightarrow> \<exists>i. index_of x xs = Some i"
  by (induction xs) auto

lemma shift_slots_valid:
  "\<forall>slot\<in>set cal. day slot \<in> set days_of_week \<Longrightarrow>
     shift_slots cal n acc = Inr (acc @ map (spec_shifted n) cal)"
proof (induction cal arbitrary: acc)
  case Nil
  then show ?case by simp
next
  case (Cons slot cal)
  from Cons.prems have "day slot \<in> set days_of_week" by simp
  from index_of_mem [OF this] obtain i where i: "index_of (day slot) days_of_week = Some i" ..
  have eq: "\<lparr> day = days_of_week ! nat ((int i + n) mod 7), start_time = start_time slot,
              duration_minutes = duration_minutes slot, activity_type = activity_type slot \<rparr>
            = spec_shifted n slot"
    by (simp add: spec_shifted_def spec_advance_day_def i)
  from Cons.prems have "\<forall>s\<in>set cal. day s \<in> set days_of_week" by simp
  from Cons.IH [OF this] show ?case by (simp add: i Let_def eq)
qed

lemma insert_and_shift_valid:
  "\<forall>slot\<in>set cal. day slot \<in> set days_of_week \<Longrightarrow>
     insert_and_shift_calendar cal new_slot n = Inr (new_slot # map (spec_shifted n) cal)"
  by (simp add: insert_and_shift_calendar_def shift_slots_valid)

lemma date_add_Inr: "date_add d n = Inr x \<Longrightarrow> x = d + n"
  by (auto simp: date_add_def split: if_splits)

lemma index_of_absent: "x \<notin> set xs \<Longrightarrow> index_of x xs = None"
  by (induction xs) auto

lemma mark_failed_absent: "fid \<notin> sm_id ` set ms \<Longrightarrow> mark_failed fid ms = None"
  by (induction ms) auto

lemma shift_slots_Inr:
  "shift_slots cal n acc = Inr res \<Longrightarrow>
     res = acc @ map (spec_shifted n) cal \<and> (\<forall>slot\<in>set cal. day slot \<in> set days_of_week)"
proof (induction cal arbitrary: acc)
  case Nil
  then show ?case by simp
next
  case (Cons slot cal)
  show ?case
  proof (cases "index_of (day slot) days_of_week")
    case None
    with Cons.prems show ?thesis by simp
  next
    case (Some i)
    have mem: "day slot \<in> set days_of_week"
    proof (rule ccontr)
      assume "day slot \<notin> set days_of_week"
      then have "index_of (day slot) days_of_week = None"
        by (rule index_of_absent)
      with Some show False by simp
    qed
    have eq: "\<lparr> day = days_of_week ! nat ((int i + n) mod 7), start_time = start_time slot,
                duration_minutes = duration_minutes slot, activity_type = activity_type slot \<rparr>
              = spec_shifted n slot"
      by (simp add: spec_shifted_def spec_advance_day_def Some)
    from Cons.prems have "shift_slots cal n (acc @ [spec_shifted n slot]) = Inr res"
      by (simp add: Some Let_def eq)
    from Cons.IH [OF this] mem show ?thesis by simp
  qed
qed

lemma replan_returns:
  assumes "fst (replan_after_failure sched fid focus today) = None"
  shows "fid \<in> sm_id ` set (us_modules sched)
       \<and> us_calendar (snd (replan_after_failure sched fid focus today))
           = \<lparr> day = day_label (today + 1), start_time = ''18:00'', duration_minutes = 120,
               activity_type = remedial \<rparr> # map (spec_shifted 1) (us_calendar sched)"
proof -
  have present: "fid \<in> sm_id ` set (us_modules sched)"
  proof (rule ccontr)
    assume "fid \<notin> sm_id ` set (us_modules sched)"
    then have "mark_failed fid (us_modules sched) = None"
      by (rule mark_failed_absent)
    with assms show False by (simp add: replan_after_failure_def)
  qed
  from mark_failed_present [OF present] obtain f ms' where
    m: "mark_failed fid (us_modules sched) = Some (f, ms')" by blast
  from assms m obtain tx where focus: "focus = Inr tx"
    by (cases focus) (auto simp: replan_after_failure_def Let_def)
  from assms m focus obtain tomorrow where d: "date_add today 1 = Inr tomorrow"
    by (cases "date_add today 1") (auto simp: replan_after_failure_def Let_def)
  from date_add_Inr [OF d] have t: "tomorrow = today + 1" .
  let ?slot = "\<lparr> day = days_of_week ! weekday tomorrow, start_time = ''18:00'',
                  duration_minutes = 120, activity_type = remedial \<rparr>"
  from assms m focus d obtain cal' where
    c: "insert_and_shift_calendar (us_calendar sched) ?slot 1 = Inr cal'"
    by (cases "insert_and_shift_calendar (us_calendar sched) ?slot 1")
       (auto simp: replan_after_failure_def Let_def)
  from c have "cal' = ?slot # map (spec_shifted 1) (us_calendar sched)"
    using shift_slots_Inr [of "us_calendar sched" 1 "[?slot]" cal']
    by (simp add: insert_and_shift_calendar_def)
  moreover have "us_calendar (snd (replan_after_failure sched fid focus today)) = cal'"
    using m focus d c by (simp add: replan_after_failure_def Let_def)
  ultimately show ?thesis using present t by (simp add: day_label_def)
qed

section \<open>Facts about the calendar allocator\<close>

lemma ceil_bounds:
  fixes a b :: int
  assumes "0 < b"
  shows "((a + b - 1) div b - 1) * b < a" and "a \<le> ((a + b - 1) div b) * b"
proof -
  define q where "q = (a + b - 1) div b"
  define r where "r = (a + b - 1) mod b"
  have e: "a + b - 1 = q * b + r" by (simp add: q_def r_def)
  have r: "0 \<le> r" "r < b" using assms by (simp_all add: r_def)
  have m: "(q - 1) * b = q * b - b" by (simp add: algebra_simps)
  from e r m show "((a + b - 1) div b - 1) * b < a" unfolding q_def [symmetric] by linarith
  from e r show "a \<le> ((a + b - 1) div b) * b" unfolding q_def [symmetric] by linarith
qed

lemma ceil_div:
  fixes a b :: int
  assumes "0 < b"
  shows "(a + b - 1) div b = \<lceil>real_of_int a / real_of_int b\<rceil>"
proof -
  let ?q = "(a + b - 1) div b"
  from ceil_bounds [OF assms, of a]
  have 1: "(?q - 1) * b < a" and 2: "a \<le> ?q * b" by simp_all
  have b: "0 < real_of_int b" using assms by simp
  from 1 have "real_of_int ((?q - 1) * b) < real_of_int a" by linarith
  then have l: "real_of_int ?q - 1 < real_of_int a / real_of_int b"
    using b by (simp add: pos_less_divide_eq)
  from 2 have "real_of_int a \<le> real_of_int (?q * b)" by linarith
  then have u: "real_of_int a / real_of_int b \<le> real_of_int ?q"
    using b by (simp add: pos_divide_le_eq)
  from l u show ?thesis by (simp add: ceiling_unique)
qed

lemma days_needed_spec:
  assumes "0 < daily_hours"
  shows "(hours * 60 + daily_hours * 60 - 1) div (daily_hours * 60) = spec_days_needed hours daily_hours"
  unfolding spec_days_needed_def using assms by (intro ceil_div) simp

lemma days_needed_nonneg:
  assumes "0 < daily_hours" and "0 \<le> hours"
  shows "0 \<le> spec_days_needed hours daily_hours"
proof -
  have "0 \<le> (hours * 60 + daily_hours * 60 - 1) div (daily_hours * 60)"
    using assms by (intro pos_imp_zdiv_nonneg_iff [THEN iffD2]) auto
  then show ?thesis by (simp add: days_needed_spec [OF assms(1)])
qed

lemma session_minutes:
  fixes total dm :: int
  assumes "0 < dm" and "n = (total + dm - 1) div dm" and "0 \<le> i" and "i < n"
  shows "min dm (total - i * dm) = (if i = n - 1 then total - (n - 1) * dm else dm)"
proof -
  from ceil_bounds [OF assms(1), of total] assms(2)
  have lo: "(n - 1) * dm < total" and hi: "total \<le> n * dm" by simp_all
  show ?thesis
  proof (cases "i = n - 1")
    case True
    have "n * dm = (n - 1) * dm + dm" by (simp add: algebra_simps)
    with hi have "total - (n - 1) * dm \<le> dm" by linarith
    with True show ?thesis by simp
  next
    case False
    with assms(4) have "i + 1 \<le> n - 1" by simp
    then have "(i + 1) * dm \<le> (n - 1) * dm" using assms(1) by (intro mult_right_mono) simp_all
    moreover have "(i + 1) * dm = i * dm + dm" by (simp add: algebra_simps)
    ultimately have "dm \<le> total - i * dm" using lo by linarith
    with False show ?thesis by simp
  qed
qed

lemma learning_sessions_run:
  assumes "\<forall>off\<in>set offs. 1 \<le> cur + int off \<and> cur + int off \<le> MAXORDINAL \<and> int off \<le> 999999999"
  shows "learning_sessions cur dm tot offs cal =
           Inr (cal @ map (\<lambda>off. \<lparr> day = day_label (cur + int off), start_time = ''18:00'',
                                   duration_minutes = min dm (tot - int off * dm),
                                   activity_type = learning \<rparr>) offs)"
  using assms
proof (induction offs arbitrary: cal)
  case Nil
  then show ?case by simp
next
  case (Cons off offs)
  from Cons.prems have d: "date_add cur (int off) = Inr (cur + int off)"
    by (simp add: date_add_def)
  from Cons.prems have "\<forall>off\<in>set offs. 1 \<le> cur + int off \<and> cur + int off \<le> MAXORDINAL
      \<and> int off \<le> 999999999" by simp
  from Cons.IH [OF this] show ?case by (simp add: d Let_def day_label_def)
qed

lemma study_slots_spec:
  assumes "0 < daily_hours"
  shows "map (\<lambda>off. \<lparr> day = day_label (cur + int off), start_time = ''18:00'',
                      duration_minutes = min (daily_hours * 60) (hours * 60 - int off * (daily_hours * 60)),
                      activity_type = learning \<rparr>) [0..<nat (spec_days_needed hours daily_hours)]
       = map (\<lambda>i. spec_slot (cur + int i)
                     (if int i = spec_days_needed hours daily_hours - 1
                      then hours * 60 - (spec_days_needed hours daily_hours - 1) * (daily_hours * 60)
                      else daily_hours * 60) learning) [0..<nat (spec_days_needed hours daily_hours)]"
proof (rule map_cong [OF refl])
  fix off assume "off \<in> set [0..<nat (spec_days_needed hours daily_hours)]"
  then have i: "int off < spec_days_needed hours daily_hours" by auto
  have dm: "0 < daily_hours * 60" using assms by simp
  have n: "spec_days_needed hours daily_hours = (hours * 60 + daily_hours * 60 - 1) div (daily_hours * 60)"
    by (simp add: days_needed_spec [OF assms])
  from session_minutes [OF dm n _ i]
  show "\<lparr> day = day_label (cur + int off), start_time = ''18:00'',
           duration_minutes = min (daily_hours * 60) (hours * 60 - int off * (daily_hours * 60)),
           activity_type = learning \<rparr>
        = spec_slot (cur + int off)
            (if int off = spec_days_needed hours daily_hours - 1
             then hours * 60 - (spec_days_needed hours daily_hours - 1) * (daily_hours * 60)
             else daily_hours * 60) learning"
    by (simp add: spec_slot_def)
qed

lemma spec_final_cursor_mono:
  assumes "0 < daily_hours"
    and "\<forall>m\<in>set ms. sm_status m \<noteq> completed \<longrightarrow> 0 \<le> estimated_hours m"
  shows "cur \<le> spec_final_cursor ms daily_hours cur"
  using assms(2)
proof (induction ms arbitrary: cur)
  case Nil
  then show ?case by simp
next
  case (Cons m ms)
  from Cons.prems have rest: "\<forall>m\<in>set ms. sm_status m \<noteq> completed \<longrightarrow> 0 \<le> estimated_hours m"
    by simp
  show ?case
  proof (cases "sm_status m = completed")
    case True
    with Cons.IH [OF rest] show ?thesis by simp
  next
    case False
    with Cons.prems have "0 \<le> estimated_hours m" by simp
    from days_needed_nonneg [OF assms(1) this]
      Cons.IH [OF rest, of "cur + spec_days_needed (estimated_hours m) daily_hours + 2"] False
    show ?thesis by simp
  qed
qed

lemma schedule_modules_run:
  assumes "0 < daily_hours"
    and "\<forall>m\<in>set ms. sm_status m \<noteq> completed \<longrightarrow> 0 \<le> estimated_hours m"
    and "1 \<le> cur"
    and "spec_final_cursor ms daily_hours cur \<le> MAXORDINAL"
  shows "schedule_modules ms (daily_hours * 60) cur cal = Inr (cal @ spec_allocate ms daily_hours cur)"
  using assms(2-4)
proof (induction ms arbitrary: cur cal)
  case Nil
  then show ?case by simp
next
  case (Cons m ms)
  from Cons.prems have rest: "\<forall>m\<in>set ms. sm_status m \<noteq> completed \<longrightarrow> 0 \<le> estimated_hours m"
    by simp
  show ?case
  proof (cases "sm_status m = completed")
    case True
    with Cons.prems have "spec_final_cursor ms daily_hours cur \<le> MAXORDINAL" by simp
    from Cons.IH [OF rest Cons.prems(2) this] True show ?thesis by simp
  next
    case False
    define n where "n = spec_days_needed (estimated_hours m) daily_hours"
    define next_date where "next_date = cur + n + 2"
    from False Cons.prems have h: "0 \<le> estimated_hours m" by simp
    have n0: "0 \<le> n" unfolding n_def by (rule days_needed_nonneg [OF assms(1) h])
    from False Cons.prems have fin: "spec_final_cursor ms daily_hours next_date \<le> MAXORDINAL"
      by (simp add: n_def next_date_def)
    from spec_final_cursor_mono [OF assms(1) rest, of next_date] fin
    have nd: "next_date \<le> MAXORDINAL" by simp
    have M: "MAXORDINAL < 999999999" by (simp add: MAXORDINAL_def)
    have dn: "(estimated_hours m * 60 + daily_hours * 60 - 1) div (daily_hours * 60) = n"
      unfolding n_def by (rule days_needed_spec [OF assms(1)])
    have offs: "\<forall>off\<in>set [0..<nat n]. 1 \<le> cur + int off \<and> cur + int off \<le> MAXORDINAL
        \<and> int off \<le> 999999999"
      using Cons.prems(2) nd M n0 by (auto simp: next_date_def)
    have ls: "learning_sessions cur (daily_hours * 60) (estimated_hours m * 60) [0..<nat n] cal
        = Inr (cal @ map (\<lambda>i. spec_slot (cur + int i)
                     (if int i = n - 1
                      then estimated_hours m * 60 - (n - 1) * (daily_hours * 60)
                      else daily_hours * 60) learning) [0..<nat n])"
      using learning_sessions_run [OF offs] study_slots_spec [OF assms(1), of cur "estimated_hours m"]
      by (simp add: n_def)
    have d1: "date_add cur n = Inr (cur + n)"
      using Cons.prems(2) nd M n0 by (simp add: date_add_def next_date_def)
    have d2: "date_add (cur + n) 1 = Inr (cur + n + 1)"
      using Cons.prems(2) nd M n0 by (simp add: date_add_def next_date_def)
    have d3: "date_add (cur + n + 1) 1 = Inr next_date"
      using Cons.prems(2) nd M n0 by (simp add: date_add_def next_date_def)
    have nd1: "1 \<le> next_date" using Cons.prems(2) n0 by (simp add: next_date_def)
    have dm0: "daily_hours * 60 \<noteq> 0" using assms(1) by simp
    from Cons.IH [OF rest nd1 fin]
    show ?thesis
      using False dm0
      by (simp add: Let_def dn ls d1 d2 d3 spec_module_slots_def spec_slot_def day_label_def
          n_def [symmetric] next_date_def)
  qed
qed

lemma upt_5: "[0..<5] = [0, 1, 2, 3, 4::nat]"
  by (simp add: upt_rec)

lemma upt_3: "[0..<3] = [0, 1, 2::nat]"
  by (simp add: upt_rec)

lemma spec_days_10_2: "spec_days_needed 10 2 = 5"
  by (simp add: spec_days_needed_def)

lemma spec_days_6_2: "spec_days_needed 6 2 = 3"
  by (simp add: spec_days_needed_def)

lemma spec_days_5_2: "spec_days_needed 5 2 = 3"
  by (simp add: spec_days_needed_def)

lemma learning_sessions_Inr:
  "learning_sessions cur dm tot offs cal = Inr res \<Longrightarrow>
     res = cal @ map (\<lambda>off. \<lparr> day = day_label (cur + int off), start_time = ''18:00'',
                               duration_minutes = min dm (tot - int off * dm),
                               activity_type = learning \<rparr>) offs"
proof (induction offs arbitrary: cal)
  case Nil
  then show ?case by simp
next
  case (Cons off offs)
  show ?case
  proof (cases "date_add cur (int off)")
    case (Inl err)
    with Cons.prems show ?thesis by simp
  next
    case (Inr d)
    from date_add_Inr [OF Inr] have d: "d = cur + int off" .
    from Cons.prems Inr d
    have "learning_sessions cur dm tot offs
            (cal @ [\<lparr> day = day_label (cur + int off), start_time = ''18:00'',
                       duration_minutes = min dm (tot - int off * dm),
                       activity_type = learning \<rparr>]) = Inr res"
      by (simp add: Let_def day_label_def)
    from Cons.IH [OF this] show ?thesis by simp
  qed
qed

lemma schedule_modules_Inr:
  assumes "0 < daily_hours"
    and "\<forall>m\<in>set ms. sm_status m \<noteq> completed \<longrightarrow> 0 \<le> estimated_hours m"
    and "schedule_modules ms (daily_hours * 60) cur cal = Inr res"
  shows "res = cal @ spec_allocate ms daily_hours cur"
  using assms(2,3)
proof (induction ms arbitrary: cur cal)
  case Nil
  then show ?case by simp
next
  case (Cons m ms)
  from Cons.prems have rest: "\<forall>m\<in>set ms. sm_status m \<noteq> completed \<longrightarrow> 0 \<le> estimated_hours m"
    by simp
  show ?case
  proof (cases "sm_status m = completed")
    case True
    with Cons.prems have "schedule_modules ms (daily_hours * 60) cur cal = Inr res" by simp
    from Cons.IH [OF rest this] True show ?thesis by simp
  next
    case False
    define n where "n = spec_days_needed (estimated_hours m) daily_hours"
    have dn: "(estimated_hours m * 60 + daily_hours * 60 - 1) div (daily_hours * 60) = n"
      unfolding n_def by (rule days_needed_spec [OF assms(1)])
    have dm0: "daily_hours * 60 \<noteq> 0" using assms(1) by simp
    let ?ls = "learning_sessions cur (daily_hours * 60) (estimated_hours m * 60) [0..<nat n] cal"
    from Cons.prems(2) False dm0 dn obtain cal1 where ls: "?ls = Inr cal1"
      by (cases ?ls) (auto simp: Let_def)
    from Cons.prems(2) False dm0 dn ls obtain pd where d1: "date_add cur n = Inr pd"
      by (cases "date_add cur n") (auto simp: Let_def)
    from Cons.prems(2) False dm0 dn ls d1 obtain vd where d2: "date_add pd 1 = Inr vd"
      by (cases "date_add pd 1") (auto simp: Let_def)
    from Cons.prems(2) False dm0 dn ls d1 d2 obtain nd where d3: "date_add vd 1 = Inr nd"
      by (cases "date_add vd 1") (auto simp: Let_def)
    from date_add_Inr [OF d1] have pd: "pd = cur + n" .
    from date_add_Inr [OF d2] pd have vd: "vd = cur + n + 1" by simp
    from date_add_Inr [OF d3] vd have nd: "nd = cur + n + 2" by simp
    from learning_sessions_Inr [OF ls] study_slots_spec [OF assms(1), of cur "estimated_hours m"]
    have cal1: "cal1 = cal @ map (\<lambda>i. spec_slot (cur + int i)
                     (if int i = n - 1
                      then estimated_hours m * 60 - (n - 1) * (daily_hours * 60)
                      else daily_hours * 60) learning) [0..<nat n]"
      by (simp add: n_def)
    from Cons.prems(2) False dm0 dn ls d1 d2 d3
    have "schedule_modules ms (daily_hours * 60) nd
            (cal1 @ [\<lparr> day = days_of_week ! weekday pd, start_time = ''18:00'',
                        duration_minutes = 60, activity_type = coding_practice \<rparr>,
                     \<lparr> day = days_of_week ! weekday vd, start_time = ''18:00'',
                        duration_minutes = 30, activity_type = viva \<rparr>]) = Inr res"
      by (simp add: Let_def)
    from Cons.IH [OF rest this] show ?thesis
      using False
      by (simp add: cal1 pd vd nd spec_module_slots_def spec_slot_def day_label_def Let_def
          n_def [symmetric])
  qed
qed

section \<open>Facts about the division through a double\<close>

lemma rhe_exact:
  fixes a b P :: int
  assumes "0 \<le> a" "0 < b" "0 < P" "b < 2 * P"
  shows "round_half_even (a * P) b div P = a div b"
proof -
  define Q where "Q = a div b"
  define ra where "ra = a mod b"
  have a: "a = Q * b + ra" by (simp add: Q_def ra_def)
  have ra: "0 \<le> ra" "ra < b" using assms(2) by (simp_all add: ra_def)
  define g where "g = (ra * P) div b"
  define r where "r = (ra * P) mod b"
  have gr: "ra * P = g * b + r" by (simp add: g_def r_def)
  have r: "0 \<le> r" "r < b" using assms(2) by (simp_all add: r_def)
  have g0: "0 \<le> g" using ra assms by (simp add: g_def pos_imp_zdiv_nonneg_iff)
  have "g * b \<le> g * b + r" using r by simp
  also have "\<dots> = ra * P" using gr by simp
  also have "\<dots> < b * P" using ra assms(3) by simp
  finally have "g * b < P * b" by (simp add: mult.commute)
  then have gP: "g < P" using assms(2) by (simp add: mult_less_cancel_right)
  have n: "a * P = (Q * P + g) * b + r"
    using a gr by (simp add: algebra_simps)
  have f: "(a * P) div b = Q * P + g"
    using n r assms(2) by (metis add.commute div_mult_self2 div_pos_pos_trivial less_irrefl add.right_neutral mult.commute)
  have md: "(a * P) mod b = r"
    using n r assms(2) by (metis mod_mult_self3 mod_pos_pos_trivial)
  have up: "2 * r < b" if "g = P - 1"
  proof -
    from gr that have "r = ra * P - (P - 1) * b" by simp
    also have "\<dots> \<le> (b - 1) * P - (P - 1) * b"
      using ra assms(3) by (simp add: mult_right_mono)
    also have "\<dots> = b - P" by (simp add: algebra_simps)
    finally show ?thesis using assms(4) by simp
  qed
  have lo: "Q * P + g \<le> round_half_even (a * P) b"
    by (simp add: round_half_even_def f md Let_def)
  have hi: "round_half_even (a * P) b < Q * P + P"
  proof (cases "g = P - 1")
    case True
    from up [OF True] have "round_half_even (a * P) b = Q * P + g"
      by (simp add: round_half_even_def f md Let_def)
    with gP show ?thesis by simp
  next
    case False
    with gP have "g + 1 < P" by simp
    moreover have "round_half_even (a * P) b \<le> Q * P + g + 1"
      by (simp add: round_half_even_def f md Let_def)
    ultimately show ?thesis by simp
  qed
  note m = lo hi
  define m where "m = round_half_even (a * P) b"
  have "m = P * Q + (m - Q * P)" by simp
  moreover have "0 \<le> m - Q * P" using m(1) g0 by (simp add: m_def)
  moreover have "m - Q * P < P" using m(2) by (simp add: m_def)
  ultimately have "m div P = Q" by (rule int_div_pos_eq)
  then show ?thesis by (simp add: m_def Q_def)
qed

lemma int_truediv_pos_exact:
  assumes "0 \<le> a" and "a < 2 ^ 53" and "0 < b"
  shows "int_truediv_pos a b = Inr (a div b)"
proof (cases "2 * a < b")
  case True
  with assms(1) have "a < b" by simp
  with assms(1) have "a div b = 0" by (simp add: div_pos_pos_trivial)
  with True show ?thesis by (simp add: int_truediv_pos_def)
next
  case False
  define x where "x = 2 * a div b"
  define e where "e = bitlen x - 2"
  have x1: "1 \<le> x"
  proof -
    from False assms(3) have "b div b \<le> 2 * a div b" by (intro zdiv_mono1) simp_all
    with assms(3) show ?thesis by (simp add: x_def)
  qed
  then have x0: "0 < x" by simp
  have xb: "x * b \<le> 2 * a"
  proof -
    have "x * b + (2 * a) mod b = 2 * a" by (simp add: x_def)
    moreover have "0 \<le> (2 * a) mod b" using assms(3) by simp
    ultimately show ?thesis by linarith
  qed
  from bitlen_bounds [OF x0] have lo: "2 ^ nat (e + 1) \<le> x"
    by (simp add: e_def)
  have e1: "- 1 \<le> e"
  proof -
    have "bitlen x \<noteq> 0" using x0 by (simp add: bitlen_eq_zero_iff)
    with bitlen_nonneg [of x] show ?thesis by (simp add: e_def)
  qed
  have "(2::int) ^ nat (e + 1) * b \<le> x * b" using lo assms(3) by (simp add: mult_right_mono)
  also have "\<dots> \<le> 2 * a" by (rule xb)
  also have "\<dots> < 2 ^ 54" using assms(2) by simp
  finally have pb: "(2::int) ^ nat (e + 1) * b < 2 ^ 54" .
  have "(2::int) ^ nat (e + 1) * 1 \<le> 2 ^ nat (e + 1) * b"
    using assms(3) by (intro mult_left_mono) simp_all
  then have "(2::int) ^ nat (e + 1) \<le> 2 ^ nat (e + 1) * b" by (simp only: mult_1_right)
  from this pb have "(2::int) ^ nat (e + 1) < 2 ^ 54" by (rule le_less_trans)
  then have "nat (e + 1) < 54" by (rule power_less_imp_less_exp [rotated]) simp
  then have e52: "e \<le> 52" by simp
  define k where "k = nat (52 - e)"
  have sum: "nat (e + 1) + (k + 1) = 54" using e1 e52 by (simp add: k_def)
  have p54: "(2::int) ^ 54 = 2 ^ nat (e + 1) * 2 ^ (k + 1)"
    by (simp only: sum [symmetric] power_add)
  have "(2::int) ^ nat (e + 1) * b < 2 ^ nat (e + 1) * 2 ^ (k + 1)"
    using pb by (simp only: p54)
  then have "b < 2 ^ (k + 1)"
    using mult_less_cancel_left_pos [of "2 ^ nat (e + 1)" b "2 ^ (k + 1)"] by simp
  then have b2: "b < 2 * 2 ^ k" by simp
  have ex: "round_half_even (a * 2 ^ k) b div 2 ^ k = a div b"
    by (rule rhe_exact [OF assms(1) assms(3) _ b2]) simp
  have noov: "\<not> (1024 \<le> e \<or> (e = 1023 \<and> m = 2 ^ 53))" for m :: int
    using e52 by simp
  show ?thesis
  proof (cases "52 \<le> e")
    case True
    with e52 have e: "e = 52" by simp
    then have "k = 0" by (simp add: k_def)
    with ex have "round_half_even a b = a div b" by simp
    with False e show ?thesis
      by (simp add: int_truediv_pos_def Let_def x_def [symmetric] e_def [symmetric])
  next
    case lt: False
    with False ex noov show ?thesis
      by (simp add: int_truediv_pos_def Let_def x_def [symmetric] e_def [symmetric]
          k_def [symmetric])
  qed
qed

lemma int_truediv_pos_big: "int_truediv_pos 9007199254740993 1 = Inr 9007199254740992"
  by (simp add: int_truediv_pos_def round_half_even_def compute_bitlen Let_def)

lemma int_truediv_exact:
  assumes "0 \<le> a" and "a < 2 ^ 53" and "0 < b"
  shows "int_truediv a b = Inr \<lfloor>real_of_int a / real_of_int b\<rfloor>"
proof -
  have "sgn a * sgn b * (a div b) = a div b"
  proof (cases "a = 0")
    case True
    then show ?thesis by simp
  next
    case False
    with assms(1,3) show ?thesis by simp
  qed
  then show ?thesis
    using assms int_truediv_pos_exact [OF assms]
    by (simp add: int_truediv_def floor_divide_of_int_eq)
qed

section \<open>Facts about the text handler\<close>

lemma viva_chat_other:
  "sid' \<noteq> ia_session_id interaction \<Longrightarrow> snd (viva_chat sessions interaction agent) sid' = sessions sid'"
  by (simp add: viva_chat_def Let_def case_prod_beta split: sum.split)

lemma viva_chat_oracle_error:
  assumes "interviewer_response agent = Inl err"
  shows "\<exists>cs'. snd (viva_chat sessions interaction agent) (ia_session_id interaction) = Some cs'
           \<and> scores cs' = scores (chat_session_of sessions (ia_session_id interaction))
           \<and> chat_question_count cs'
               = chat_question_count (chat_session_of sessions (ia_session_id interaction))"
  by (cases "sessions (ia_session_id interaction)")
     (simp_all add: viva_chat_def assms chat_session_of_def Let_def dom_def)

lemma viva_chat_graded:
  assumes "interviewer_response agent = Inr (tx, upd)"
  shows "\<exists>cs'. snd (viva_chat sessions interaction agent) (ia_session_id interaction) = Some cs'
           \<and> scores cs' = (if 0 \<le> upd
                            then scores (chat_session_of sessions (ia_session_id interaction)) @ [upd]
                            else scores (chat_session_of sessions (ia_session_id interaction)))
           \<and> chat_question_count cs'
               = (if 0 \<le> upd
                  then chat_question_count (chat_session_of sessions (ia_session_id interaction)) + 1
                  else chat_question_count (chat_session_of sessions (ia_session_id interaction)))"
proof (cases "sessions (ia_session_id interaction)")
  case None
  show ?thesis
    by (cases "0 \<le> upd")
       (simp_all add: viva_chat_def assms chat_session_of_def Let_def dom_def None case_prod_beta
          split: sum.split)
next
  case (Some c)
  show ?thesis
    by (cases "0 \<le> upd")
       (simp_all add: viva_chat_def assms chat_session_of_def Let_def dom_def Some case_prod_beta
          split: sum.split)
qed

lemma viva_chat_response:
  assumes "interviewer_response agent = Inr (tx, upd)"
    and "fst (viva_chat sessions interaction agent) = Inr r"
  shows "vr_score r = (if 0 \<le> upd then upd else 0)
       \<and> (let sc = (if 0 \<le> upd
                      then scores (chat_session_of sessions (ia_session_id interaction)) @ [upd]
                      else scores (chat_session_of sessions (ia_session_id interaction)))
          in if sc = [] then cumulative_score r = 0
             else int_truediv (sum_list sc) (int (length sc)) = Inr (cumulative_score r))"
proof (cases "sessions (ia_session_id interaction)")
  case None
  show ?thesis
  proof (cases "0 \<le> upd")
    case True
    with assms(2) show ?thesis
      by (auto simp: viva_chat_def assms(1) chat_session_of_def Let_def dom_def None case_prod_beta
          split: sum.splits)
  next
    case False
    with assms(2) show ?thesis
      by (auto simp: viva_chat_def assms(1) chat_session_of_def Let_def dom_def None case_prod_beta
          split: sum.splits)
  qed
next
  case (Some c)
  show ?thesis
  proof (cases "0 \<le> upd")
    case True
    with assms(2) show ?thesis
      by (auto simp: viva_chat_def assms(1) chat_session_of_def Let_def dom_def Some case_prod_beta
          split: sum.splits)
  next
    case False
    show ?thesis
    proof (cases "scores c = []")
      case e: True
      with False assms(2) show ?thesis
        by (auto simp: viva_chat_def assms(1) chat_session_of_def Let_def dom_def Some
            case_prod_beta split: sum.splits)
    next
      case e: False
      with False assms(2) show ?thesis
        by (auto simp: viva_chat_def assms(1) chat_session_of_def Let_def dom_def Some
            case_prod_beta split: sum.splits)
    qed
  qed
qed

lemma viva_chat_Inr_oracle:
  assumes "fst (viva_chat sessions interaction agent) = Inr r"
  shows "\<exists>tx upd. interviewer_response agent = Inr (tx, upd)"
  using assms
  by (cases "interviewer_response agent") (auto simp: viva_chat_def Let_def)

lemma start_simple_viva_store:
  "start_simple_viva sessions new_id question = (r0, sessions') \<Longrightarrow> sessions' sid = Some cs
     \<Longrightarrow> sessions sid = Some cs \<or> (scores cs = [] \<and> chat_question_count cs = 0)"
  by (auto simp: start_simple_viva_def split: sum.splits if_splits)

lemma reachable_chat_invariant:
  "reachable_chat sessions \<Longrightarrow> sessions sid = Some cs \<Longrightarrow>
     (\<forall>x\<in>set (scores cs). 0 \<le> x) \<and> chat_question_count cs = int (length (scores cs))"
proof (induction arbitrary: sid cs rule: reachable_chat.induct)
  case chat_empty
  then show ?case by simp
next
  case (chat_start sessions new_id question r0 sessions')
  from start_simple_viva_store [OF chat_start.hyps(2) chat_start.prems]
  show ?case using chat_start.IH by auto
next
  case (chat_turn sessions interaction agent r sessions')
  have snd: "sessions' = snd (viva_chat sessions interaction agent)"
    using chat_turn.hyps(2) by simp
  let ?sid = "ia_session_id interaction"
  have base: "(\<forall>x\<in>set (scores (chat_session_of sessions ?sid)). 0 \<le> x)
        \<and> chat_question_count (chat_session_of sessions ?sid)
            = int (length (scores (chat_session_of sessions ?sid)))"
  proof (cases "sessions ?sid")
    case None
    then show ?thesis by (simp add: chat_session_of_def)
  next
    case (Some c)
    with chat_turn.IH [OF Some] show ?thesis by (simp add: chat_session_of_def)
  qed
  show ?case
  proof (cases "sid = ?sid")
    case False
    with snd chat_turn.prems have "sessions sid = Some cs" by (simp add: viva_chat_other)
    then show ?thesis by (rule chat_turn.IH)
  next
    case True
    show ?thesis
    proof (cases "interviewer_response agent")
      case (Inl err)
      from viva_chat_oracle_error [OF Inl, of sessions interaction] snd chat_turn.prems True base
      show ?thesis by auto
    next
      case (Inr p)
      obtain tx upd where p: "p = (tx, upd)" by (cases p)
      from viva_chat_graded [of agent tx upd sessions interaction] Inr p snd chat_turn.prems True base
      show ?thesis by (auto split: if_splits)
    qed
  qed
qed

lemma viva_chat_runs:
  assumes o: "interviewer_response agent = Inr (tx, upd)"
    and fb: "chat_final_feedback agent = Inr fin"
    and lo: "0 \<le> sum_list (scores (chat_session_of sessions (ia_session_id interaction)))"
    and hi: "sum_list (scores (chat_session_of sessions (ia_session_id interaction)))
               + (if 0 \<le> upd then upd else 0) < 2 ^ 53"
  shows "\<exists>r. viva_chat sessions interaction agent
               = (Inr r, snd (viva_chat sessions interaction agent))"
proof -
  let ?old = "scores (chat_session_of sessions (ia_session_id interaction))"
  let ?sc = "if 0 \<le> upd then ?old @ [upd] else ?old"
  have "?sc \<noteq> [] \<Longrightarrow> \<exists>q. int_truediv (sum_list ?sc) (int (length ?sc)) = Inr q"
    using int_truediv_exact [of "sum_list ?sc" "int (length ?sc)"] lo hi
    by (auto split: if_splits)
  then obtain q where q: "?sc \<noteq> [] \<Longrightarrow> int_truediv (sum_list ?sc) (int (length ?sc)) = Inr q"
    by blast
  show ?thesis
  proof (cases "sessions (ia_session_id interaction)")
    case None
    with q show ?thesis
      by (cases "0 \<le> upd")
         (simp_all add: viva_chat_def o fb chat_session_of_def Let_def dom_def case_prod_beta)
  next
    case (Some c)
    with q show ?thesis
      by (cases "0 \<le> upd"; cases "scores c = []")
         (simp_all add: viva_chat_def o fb chat_session_of_def Let_def dom_def case_prod_beta)
  qed
qed

section \<open>The claims\<close>

text \<open>
  Claim C5. Whatever the session and whatever the size of the oracle's score update, the
  session written by the interaction handler has its \<open>current_score\<close> between 0 and 100;
  a session starts at 50; so every session of every reachable store is inside the interval.
\<close>

theorem current_score_in_range:
  "0 \<le> current_score (fst (interact_session s u a now))
   \<and> current_score (fst (interact_session s u a now)) \<le> 100
   \<and> (interact_viva e db sid ua ut agent clock = (Inr r, db') \<longrightarrow>
        (\<exists>s'. db' sid = Some s' \<and> 0 \<le> current_score s' \<and> current_score s' \<le> 100
              \<and> resp_current_score r = current_score s'))
   \<and> (start_viva e db0 request agent0 new_id t0 = (Inr r0, db0') \<longrightarrow>
        (\<exists>s'. db0' new_id = Some s' \<and> current_score s' = 50))
   \<and> (reachable_db db1 \<longrightarrow> db1 sid1 = Some s1 \<longrightarrow>
        0 \<le> current_score s1 \<and> current_score s1 \<le> 100)"
proof (intro conjI impI)
  show "0 \<le> current_score (fst (interact_session s u a now))"
    by (simp add: interact_session_score)
  show "current_score (fst (interact_session s u a now)) \<le> 100"
    by (simp add: interact_session_score)
next
  assume "interact_viva e db sid ua ut agent clock = (Inr r, db')"
  then obtain s0 u0 where
    "db' = db(sid \<mapsto> (fst (interact_session s0 u0 agent clock))\<lparr>updated_at := clock 3\<rparr>)"
    "resp_current_score r = current_score (fst (interact_session s0 u0 agent clock))"
    using interact_viva_Inr by blast
  then show "\<exists>s'. db' sid = Some s' \<and> 0 \<le> current_score s' \<and> current_score s' \<le> 100
              \<and> resp_current_score r = current_score s'"
    by (simp add: interact_session_score)
next
  assume "start_viva e db0 request agent0 new_id t0 = (Inr r0, db0')"
  then have "db0' = db0(new_id \<mapsto> new_session new_id request (initial_question agent0) t0)"
    by (rule start_viva_Inr)
  then show "\<exists>s'. db0' new_id = Some s' \<and> current_score s' = 50"
    by (simp add: new_session_def)
next
  assume "reachable_db db1" "db1 sid1 = Some s1"
  then show "0 \<le> current_score s1" "current_score s1 \<le> 100"
    using reachable_db_invariant by blast+
qed

theorem current_score_in_range_witness:
  "(\<exists>s'. snd (interact_viva demo_env [''s1'' \<mapsto> demo_session ''active'' 95 2] ''s1'' False
              (Some ''x'') (demo_agent 1000) demo_clock) ''s1'' = Some s'
         \<and> 0 \<le> current_score s' \<and> current_score s' \<le> 100)
   \<and> (\<exists>s'. snd (start_viva demo_env Map.empty demo_request (demo_agent 0) ''s1'' ''t'') ''s1'' = Some s'
         \<and> 0 \<le> current_score s' \<and> current_score s' \<le> 100)"
proof -
  let ?run = "interact_viva demo_env [''s1'' \<mapsto> demo_session ''active'' 95 2] ''s1'' False
                (Some ''x'') (demo_agent 1000) demo_clock"
  let ?start = "start_viva demo_env Map.empty demo_request (demo_agent 0) ''s1'' ''t''"
  obtain r where run: "?run = (Inr r, snd ?run)" using demo_interact_runs by blast
  obtain r0 where start: "?start = (Inr r0, snd ?start)" using demo_start_runs by blast
  have reach: "reachable_db (snd ?start)"
    using reachable_start [OF reachable_empty start] .
  note T = current_score_in_range [where e = demo_env and db = "[''s1'' \<mapsto> demo_session ''active'' 95 2]"
      and sid = "''s1''" and ua = False and ut = "Some ''x''" and agent = "demo_agent 1000"
      and clock = demo_clock and r = r and db' = "snd ?run"
      and db0 = Map.empty and request = demo_request and ?agent0.0 = "demo_agent 0"
      and new_id = "''s1''" and ?t0.0 = "''t''" and ?r0.0 = r0 and db0' = "snd ?start"
      and ?db1.0 = "snd ?start" and ?sid1.0 = "''s1''"]
  from T run have A: "\<exists>s'. snd ?run ''s1'' = Some s' \<and> 0 \<le> current_score s' \<and> current_score s' \<le> 100"
    by blast
  from T start obtain s0 where s0: "snd ?start ''s1'' = Some s0" by blast
  from T reach s0 have "0 \<le> current_score s0 \<and> current_score s0 \<le> 100" by blast
  with s0 A show ?thesis by blast
qed

text \<open>
  Claim C6, on the code. \<^verbatim>\<open>main.py\<close> binds the name \<^verbatim>\<open>VivaAgent\<close> nowhere, so with both API
  keys set \<^verbatim>\<open>start_viva\<close> raises \<^verbatim>\<open>NameError\<close> before the session dictionary is built: the
  sample request is answered by the error 500 and no session is stored. With an agent
  object at hand the session stored is active, with \<open>current_score\<close> 50 and the first
  question as only transcript entry, and its \<open>question_count\<close> is 1, where the text start
  \<^verbatim>\<open>start_simple_viva\<close> begins its counter at 0.
\<close>

theorem start_viva_on_sample_request:
  "start_viva demo_env Map.empty demo_request repository_agent ''s1'' ''t''
     = (Inl (HTTPException 500 ''Failed to start viva: name 'VivaAgent' is not defined''), Map.empty)
   \<and> snd (start_viva demo_env Map.empty demo_request (demo_agent 0) ''s1'' ''t'') ''s1''
     = Some \<lparr> session_id = ''s1'', module_id = ''m1'', module_title = ''Git Basics'',
              transcript = [\<lparr> role = ''interviewer'', content = ''Hello. What is a commit?'',
                              timestamp = ''t'' \<rparr>],
              current_score = 50, status = ''active'', question_count = 1,
              created_at = ''t'', updated_at = ''t'' \<rparr>
   \<and> snd (start_simple_viva Map.empty ''c1'' (Inr ''What is a commit?'')) ''c1''
     = Some \<lparr> history = [(''interviewer'', ''What is a commit?'')], scores = [],
              chat_question_count = 0 \<rparr>"
  by (simp add: start_viva_def demo_env_def demo_agent_def repository_agent_def demo_request_def
      getenv_unset_def Let_def create_session_def new_session_def start_simple_viva_def)



text \<open>
  Claim C8. An interaction on a stored session whose status is not "active" (so on every
  passed or failed session) fails and leaves the store as it was; with the API keys
  configured the failure is the 400 response "Session is already ...".
\<close>

theorem concluded_session_rejected:
  assumes "db sid = Some s" and "status s \<noteq> ''active''"
  shows "\<exists>err. interact_viva e db sid ua ut agent clock = (Inl err, db)
           \<and> (\<not> getenv_unset (GEMINI_API_KEY e) \<and> \<not> getenv_unset (GROQ_API_KEY e) \<longrightarrow>
                err = HTTPException 400 (''Session is already '' @ status s))"
  using assms by (simp add: interact_viva_def get_session_def)

theorem concluded_session_rejected_witness:
  "interact_viva demo_env [''s1'' \<mapsto> demo_session ''passed'' 80 5] ''s1'' False (Some ''more'')
      (demo_agent 5) demo_clock
   = (Inl (HTTPException 400 ''Session is already passed''),
      [''s1'' \<mapsto> demo_session ''passed'' 80 5])"
proof -
  have a: "[''s1'' \<mapsto> demo_session ''passed'' 80 5] ''s1'' = Some (demo_session ''passed'' 80 5)"
    by simp
  have b: "status (demo_session ''passed'' 80 5) \<noteq> ''active''"
    by (simp add: demo_session_def)
  have c: "\<not> getenv_unset (GEMINI_API_KEY demo_env) \<and> \<not> getenv_unset (GROQ_API_KEY demo_env)"
    by (simp add: demo_env_def getenv_unset_def)
  have d: "status (demo_session ''passed'' 80 5) = ''passed''"
    by (simp add: demo_session_def)
  from concluded_session_rejected [where db = "[''s1'' \<mapsto> demo_session ''passed'' 80 5]"
      and sid = "''s1''" and s = "demo_session ''passed'' 80 5" and e = demo_env and ua = False
      and ut = "Some ''more''" and agent = "demo_agent 5" and clock = demo_clock, OF a b] c d
  show ?thesis by auto
qed


text \<open>
  Claim C10, as the code has it. \<^verbatim>\<open>viva_chat\<close> computes \<^verbatim>\<open>int(sum(scores) / len(scores))\<close>: the
  quotient is a double, so what a turn returns as \<open>cumulative_score\<close> is the truncation of the
  correctly rounded quotient, and 0 while no score is recorded. For every text session
  reachable through \<^verbatim>\<open>start_simple_viva\<close> and \<^verbatim>\<open>viva_chat\<close> it is the floor of the mean of the
  recorded scores whenever their sum is below \<open>2^53\<close>. A turn that is not graded reports the
  score 0 and records nothing.
\<close>

theorem cumulative_score_is_floor_mean:
  assumes "reachable_chat sessions"
    and "viva_chat sessions interaction agent = (Inr r, sessions')"
  shows "\<exists>cs'. sessions' (ia_session_id interaction) = Some cs'
           \<and> (if scores cs' = [] then cumulative_score r = 0
              else int_truediv (sum_list (scores cs')) (int (length (scores cs')))
                     = Inr (cumulative_score r))
           \<and> (sum_list (scores cs') < 2 ^ 53 \<longrightarrow>
                cumulative_score r =
                  (if scores cs' = [] then 0
                   else \<lfloor>real_of_int (sum_list (scores cs')) / real (length (scores cs'))\<rfloor>))
           \<and> (\<forall>tx upd. interviewer_response agent = Inr (tx, upd) \<longrightarrow> upd < 0 \<longrightarrow>
                 vr_score r = 0
                 \<and> scores cs' = scores (chat_session_of sessions (ia_session_id interaction)))"
proof -
  let ?sid = "ia_session_id interaction"
  from assms(2) have f: "fst (viva_chat sessions interaction agent) = Inr r"
    and s: "sessions' = snd (viva_chat sessions interaction agent)" by simp_all
  from viva_chat_Inr_oracle [OF f] obtain tx upd where
    o: "interviewer_response agent = Inr (tx, upd)" by blast
  from viva_chat_graded [OF o, of sessions interaction] s obtain cs' where
    cs': "sessions' ?sid = Some cs'"
    and sc: "scores cs' = (if 0 \<le> upd then scores (chat_session_of sessions ?sid) @ [upd]
                           else scores (chat_session_of sessions ?sid))"
    by auto
  have reach': "reachable_chat sessions'"
    using chat_turn [OF assms(1) assms(2)] .
  from reachable_chat_invariant [OF reach' cs'] have nonneg: "\<forall>x\<in>set (scores cs'). 0 \<le> x"
    by simp
  then have sum0: "0 \<le> sum_list (scores cs')" by (simp add: sum_list_nonneg)
  from viva_chat_response [OF o f] sc
  have cum: "if scores cs' = [] then cumulative_score r = 0
             else int_truediv (sum_list (scores cs')) (int (length (scores cs')))
                    = Inr (cumulative_score r)"
    and vs: "vr_score r = (if 0 \<le> upd then upd else 0)" by (simp_all add: Let_def)
  have fl: "cumulative_score r =
               (if scores cs' = [] then 0
                else \<lfloor>real_of_int (sum_list (scores cs')) / real (length (scores cs'))\<rfloor>)"
    if small: "sum_list (scores cs') < 2 ^ 53"
  proof (cases "scores cs' = []")
    case True
    with cum show ?thesis by simp
  next
    case False
    then have "0 < int (length (scores cs'))" by simp
    from int_truediv_exact [OF sum0 small this] cum False show ?thesis by simp
  qed
  have skip: "\<forall>tx upd'. interviewer_response agent = Inr (tx, upd') \<longrightarrow> upd' < 0 \<longrightarrow>
                 vr_score r = 0 \<and> scores cs' = scores (chat_session_of sessions ?sid)"
    using o vs sc by auto
  from cs' cum fl skip show ?thesis by blast
qed

theorem cumulative_score_is_floor_mean_witness:
  "(\<exists>r. fst (viva_chat Map.empty demo_interaction (demo_chat_agent (- 1))) = Inr r
        \<and> cumulative_score r = 0 \<and> vr_score r = 0)
   \<and> (\<exists>r. fst (viva_chat (snd (viva_chat Map.empty demo_interaction (demo_chat_agent 80)))
                 demo_interaction (demo_chat_agent 75)) = Inr r
        \<and> cumulative_score r = 77)"
proof -
  let ?run = "viva_chat Map.empty demo_interaction (demo_chat_agent (- 1))"
  let ?one = "viva_chat Map.empty demo_interaction (demo_chat_agent 80)"
  let ?two = "viva_chat (snd ?one) demo_interaction (demo_chat_agent 75)"
  have fresh: "scores (chat_session_of Map.empty (ia_session_id demo_interaction)) = []"
    by (simp add: chat_session_of_def)
  have first: "map_option scores (snd ?one (ia_session_id demo_interaction)) = Some [80]"
    by (simp add: viva_chat_def demo_chat_agent_def demo_interaction_def Let_def case_prod_beta
        split: sum.split)
  then have after: "scores (chat_session_of (snd ?one) (ia_session_id demo_interaction)) = [80]"
    by (auto simp: chat_session_of_def)
  obtain r where run: "?run = (Inr r, snd ?run)"
    using viva_chat_runs [of "demo_chat_agent (- 1)" "''Fine. What is a branch?''" "- 1" "''Done.''"
        Map.empty demo_interaction] fresh
    by (auto simp: demo_chat_agent_def)
  obtain r1 where one: "?one = (Inr r1, snd ?one)"
    using viva_chat_runs [of "demo_chat_agent 80" "''Fine. What is a branch?''" 80 "''Done.''"
        Map.empty demo_interaction] fresh
    by (auto simp: demo_chat_agent_def)
  obtain r2 where two: "?two = (Inr r2, snd ?two)"
    using viva_chat_runs [of "demo_chat_agent 75" "''Fine. What is a branch?''" 75 "''Done.''"
        "snd ?one" demo_interaction] after
    by (auto simp: demo_chat_agent_def)
  have o: "interviewer_response (demo_chat_agent (- 1)) = Inr (''Fine. What is a branch?'', - 1)"
    by (simp add: demo_chat_agent_def)
  from cumulative_score_is_floor_mean [OF chat_empty run] o fresh
  have "cumulative_score r = 0 \<and> vr_score r = 0" by auto
  with run have A: "\<exists>r. fst ?run = Inr r \<and> cumulative_score r = 0 \<and> vr_score r = 0"
    by (metis fst_conv)
  have reach: "reachable_chat (snd ?one)" using chat_turn [OF chat_empty one] .
  have o2: "interviewer_response (demo_chat_agent 75) = Inr (''Fine. What is a branch?'', 75)"
    by (simp add: demo_chat_agent_def)
  from viva_chat_graded [OF o2, of "snd ?one" demo_interaction] after
  have sc: "map_option scores (snd ?two (ia_session_id demo_interaction)) = Some [80, 75]"
    by auto
  from cumulative_score_is_floor_mean [OF reach two] sc
  have "cumulative_score r2 = 77" by auto
  with two have B: "\<exists>r. fst ?two = Inr r \<and> cumulative_score r = 77" by (metis fst_conv)
  from A B show ?thesis by blast
qed

text \<open>
  The claim as stated fails: a first graded turn with the score \<open>2^53 + 1\<close> records that
  score, whose mean is itself, and returns \<open>2^53\<close> as the cumulative score.
\<close>

theorem cumulative_score_rounded_counterexample:
  "map_option scores
     (snd (viva_chat Map.empty demo_interaction (demo_chat_agent 9007199254740993)) ''c1'')
      = Some [9007199254740993]
   \<and> map_sum id cumulative_score
        (fst (viva_chat Map.empty demo_interaction (demo_chat_agent 9007199254740993)))
      = Inr 9007199254740992
   \<and> \<lfloor>real_of_int (sum_list [9007199254740993]) / real (length [9007199254740993 :: int])\<rfloor>
      = (9007199254740993 :: int)"
  by (simp add: viva_chat_def demo_interaction_def demo_chat_agent_def Let_def case_prod_beta
      int_truediv_def int_truediv_pos_big)




text \<open>
  Claim C9, as the code has it. For a module id present in the schedule, the first step of
  \<^verbatim>\<open>replan_after_failure\<close> sets the status of the first module with that id to \<open>failed\<close> and
  its \<open>viva_passed\<close> to false, whatever its status was, and leaves every other module and
  every other field as it was (so it unlocks nothing); this holds even when a later step of
  the replanning raises. No score is recorded: the module has no field for it.
\<close>

theorem replan_marks_failed:
  assumes "fid \<in> sm_id ` set (us_modules sched)"
  shows "\<exists>i<length (us_modules sched).
           sm_id (us_modules sched ! i) = fid
         \<and> (\<forall>j<i. sm_id (us_modules sched ! j) \<noteq> fid)
         \<and> us_modules (snd (replan_after_failure sched fid focus today))
             = (us_modules sched)[i := (us_modules sched ! i)\<lparr>sm_status := failed, viva_passed := False\<rparr>]"
proof -
  from mark_failed_present [OF assms] obtain f ms' where
    m: "mark_failed fid (us_modules sched) = Some (f, ms')" by blast
  from mark_failed_Some [OF m] replan_modules [OF m, of focus today]
  show ?thesis by auto
qed

theorem replan_marks_failed_witness:
  "map sm_status (us_modules (snd (replan_after_failure (demo_schedule unlocked) ''module_1''
       (Inr ''review'') 739000))) = [failed, locked]"
proof -
  have p: "''module_1'' \<in> sm_id ` set (us_modules (demo_schedule unlocked))"
    by (simp add: demo_schedule_def demo_sched_module_def)
  from replan_marks_failed [OF p, of "Inr ''review''" 739000] obtain i where
    i: "i < length (us_modules (demo_schedule unlocked))"
       "sm_id (us_modules (demo_schedule unlocked) ! i) = ''module_1''"
       "us_modules (snd (replan_after_failure (demo_schedule unlocked) ''module_1''
           (Inr ''review'') 739000))
         = (us_modules (demo_schedule unlocked))
             [i := (us_modules (demo_schedule unlocked) ! i)\<lparr>sm_status := failed, viva_passed := False\<rparr>]"
    by blast
  from i(1,2) have "i = 0"
    by (auto simp: demo_schedule_def demo_sched_module_def nth_Cons' split: if_splits)
  with i(3) show ?thesis by (simp add: demo_schedule_def demo_sched_module_def)
qed

text \<open>
  The claim as stated makes \<open>unlocked\<close> a precondition; a module that is still \<open>locked\<close> is
  marked failed all the same, and the call returns normally.
\<close>

theorem replan_without_precondition_counterexample:
  "sm_status (hd (us_modules (demo_schedule locked))) = locked
   \<and> fst (replan_after_failure (demo_schedule locked) ''module_1'' (Inr ''review'') 739000) = None
   \<and> map sm_status (us_modules (snd (replan_after_failure (demo_schedule locked) ''module_1''
        (Inr ''review'') 739000))) = [failed, locked]"
  by (simp add: replan_after_failure_def demo_schedule_def demo_sched_module_def demo_slot_def
      date_add_def MAXORDINAL_def insert_and_shift_calendar_def days_of_week_def weekday_def Let_def)

text \<open>
  Claim C3. Whenever \<^verbatim>\<open>replan_after_failure\<close> returns, the failed module id was present and
  the calendar has been replaced by the two-hour remedial slot for tomorrow followed by
  every old slot, in its original order, with its day label advanced by one day modulo 7
  and its start time, duration and activity type unchanged. It does return when the id is
  present, the old slots are labelled with weekday names, the language model answers and
  tomorrow is a date. \<^verbatim>\<open>_insert_and_shift_calendar\<close> does the same for any \<open>shift_days\<close>, and a
  slot labelled Sunday becomes Monday under a shift of one day.
\<close>

theorem replan_calendar:
  "(fst (replan_after_failure sched fid focus today) = None \<longrightarrow>
      fid \<in> sm_id ` set (us_modules sched)
      \<and> us_calendar (snd (replan_after_failure sched fid focus today))
          = \<lparr> day = day_label (today + 1), start_time = ''18:00'', duration_minutes = 120,
              activity_type = remedial \<rparr> # map (spec_shifted 1) (us_calendar sched))
   \<and> (fid \<in> sm_id ` set (us_modules sched) \<longrightarrow>
        (\<forall>slot\<in>set (us_calendar sched). day slot \<in> set days_of_week) \<longrightarrow>
        0 \<le> today \<longrightarrow> today < MAXORDINAL \<longrightarrow>
        fst (replan_after_failure sched fid (Inr tx) today) = None)
   \<and> (insert_and_shift_calendar cal new_slot shift_days = Inr res \<longrightarrow>
        res = new_slot # map (spec_shifted shift_days) cal)
   \<and> ((\<forall>slot\<in>set cal. day slot \<in> set days_of_week) \<longrightarrow>
        insert_and_shift_calendar cal new_slot shift_days
          = Inr (new_slot # map (spec_shifted shift_days) cal))
   \<and> (\<forall>slot. start_time (spec_shifted shift_days slot) = start_time slot
            \<and> duration_minutes (spec_shifted shift_days slot) = duration_minutes slot
            \<and> activity_type (spec_shifted shift_days slot) = activity_type slot)
   \<and> (\<forall>slot. day slot = ''Sunday'' \<longrightarrow> day (spec_shifted 1 slot) = ''Monday'')"
proof (intro conjI impI allI)
  assume "fst (replan_after_failure sched fid focus today) = None"
  from replan_returns [OF this]
  show "fid \<in> sm_id ` set (us_modules sched)"
    and "us_calendar (snd (replan_after_failure sched fid focus today))
          = \<lparr> day = day_label (today + 1), start_time = ''18:00'', duration_minutes = 120,
              activity_type = remedial \<rparr> # map (spec_shifted 1) (us_calendar sched)"
    by simp_all
next
  assume p: "fid \<in> sm_id ` set (us_modules sched)"
    and v: "\<forall>slot\<in>set (us_calendar sched). day slot \<in> set days_of_week"
    and t: "0 \<le> today" "today < MAXORDINAL"
  from mark_failed_present [OF p] obtain f ms' where
    m: "mark_failed fid (us_modules sched) = Some (f, ms')" by blast
  have d: "date_add today 1 = Inr (today + 1)" using t by (simp add: date_add_def)
  show "fst (replan_after_failure sched fid (Inr tx) today) = None"
    by (simp add: replan_after_failure_def m d Let_def insert_and_shift_valid [OF v])
next
  assume "insert_and_shift_calendar cal new_slot shift_days = Inr res"
  then have "shift_slots cal shift_days [new_slot] = Inr res"
    by (simp add: insert_and_shift_calendar_def)
  from shift_slots_Inr [OF this] show "res = new_slot # map (spec_shifted shift_days) cal"
    by simp
next
  assume "\<forall>slot\<in>set cal. day slot \<in> set days_of_week"
  then show "insert_and_shift_calendar cal new_slot shift_days
               = Inr (new_slot # map (spec_shifted shift_days) cal)"
    by (rule insert_and_shift_valid)
next
  fix slot
  show "start_time (spec_shifted shift_days slot) = start_time slot"
    and "duration_minutes (spec_shifted shift_days slot) = duration_minutes slot"
    and "activity_type (spec_shifted shift_days slot) = activity_type slot"
    by (simp_all add: spec_shifted_def)
next
  fix slot :: TimeSlot assume "day slot = ''Sunday''"
  then show "day (spec_shifted 1 slot) = ''Monday''"
    by (simp add: spec_shifted_def spec_advance_day_def days_of_week_def)
qed

theorem replan_calendar_witness:
  "fst (replan_after_failure (demo_schedule unlocked) ''module_1'' (Inr ''review'') 739000) = None
   \<and> map (\<lambda>s. (day s, duration_minutes s, activity_type s))
        (us_calendar (snd (replan_after_failure (demo_schedule unlocked) ''module_1''
           (Inr ''review'') 739000)))
      = [(''Thursday'', 120, remedial), (''Monday'', 120, learning), (''Tuesday'', 120, learning)]"
proof -
  let ?run = "replan_after_failure (demo_schedule unlocked) ''module_1'' (Inr ''review'') 739000"
  have p: "''module_1'' \<in> sm_id ` set (us_modules (demo_schedule unlocked))"
    by (simp add: demo_schedule_def demo_sched_module_def)
  have v: "\<forall>slot\<in>set (us_calendar (demo_schedule unlocked)). day slot \<in> set days_of_week"
    by (simp add: demo_schedule_def demo_slot_def days_of_week_def)
  have t: "(0::int) \<le> 739000" "739000 < MAXORDINAL" by (simp_all add: MAXORDINAL_def)
  note T = replan_calendar [where sched = "demo_schedule unlocked" and fid = "''module_1''"
      and focus = "Inr ''review''" and tx = "''review''" and today = 739000]
  from T p v t have ok: "fst ?run = None" by blast
  with T have cal: "us_calendar (snd ?run)
      = \<lparr> day = day_label (739000 + 1), start_time = ''18:00'', duration_minutes = 120,
          activity_type = remedial \<rparr> # map (spec_shifted 1) (us_calendar (demo_schedule unlocked))"
    by blast
  have c: "map (\<lambda>s. (day s, duration_minutes s, activity_type s))
             (map (spec_shifted 1) (us_calendar (demo_schedule unlocked)))
           = [(''Monday'', 120, learning), (''Tuesday'', 120, learning)]"
    by (simp add: demo_schedule_def demo_slot_def spec_shifted_def spec_advance_day_def
        days_of_week_def)
  have l: "day_label (739000 + 1) = ''Thursday''"
    by (simp add: day_label_def weekday_def days_of_week_def)
  from ok cal c l show ?thesis by simp
qed

text \<open>
  Claim C2. For a positive number of daily hours and modules whose estimated hours are not
  negative, whenever \<^verbatim>\<open>_create_calendar_from_modules\<close> returns a calendar it is the one the
  specification describes: modules in list order, completed ones skipped, per module
  \<open>ceil(hours*60 / (daily*60))\<close> study slots of \<open>daily*60\<close> minutes with the remainder in the
  last one, a 60-minute practice slot the day after, a 30-minute assessment slot the day
  after that, and the next module starting the day after the assessment. It does return one
  for every start date from which the plan fits into the range of dates. A module of 10
  hours at 2 hours a day gets exactly five study slots, one practice slot and one assessment
  slot.
\<close>

theorem allocator_matches_specification:
  assumes "0 < daily_hours"
    and "\<forall>m\<in>set mods. sm_status m \<noteq> completed \<longrightarrow> 0 \<le> estimated_hours m"
  shows "(create_calendar_from_modules mods daily_hours start_date = Inr cal \<longrightarrow>
            cal = spec_allocate mods daily_hours start_date)
       \<and> (1 \<le> start_date \<longrightarrow> spec_final_cursor mods daily_hours start_date \<le> MAXORDINAL \<longrightarrow>
            create_calendar_from_modules mods daily_hours start_date
              = Inr (spec_allocate mods daily_hours start_date))
       \<and> (\<forall>m::LearningModuleScheduler. estimated_hours m = 10 \<longrightarrow> sm_status m \<noteq> completed \<longrightarrow>
              1 \<le> start_date \<longrightarrow> start_date + 7 \<le> MAXORDINAL \<longrightarrow>
              (\<exists>cal. create_calendar_from_modules [m] 2 start_date = Inr cal
                 \<and> map (\<lambda>s. (activity_type s, duration_minutes s)) cal
                     = [(learning, 120), (learning, 120), (learning, 120), (learning, 120),
                        (learning, 120), (coding_practice, 60), (viva, 30)]))"
proof (intro conjI allI impI)
  assume "create_calendar_from_modules mods daily_hours start_date = Inr cal"
  then have "schedule_modules mods (daily_hours * 60) start_date [] = Inr cal"
    by (simp add: create_calendar_from_modules_def)
  from schedule_modules_Inr [OF assms this] show "cal = spec_allocate mods daily_hours start_date"
    by simp
next
  assume "1 \<le> start_date" "spec_final_cursor mods daily_hours start_date \<le> MAXORDINAL"
  from schedule_modules_run [OF assms this, of "[]"]
  show "create_calendar_from_modules mods daily_hours start_date
           = Inr (spec_allocate mods daily_hours start_date)"
    by (simp add: create_calendar_from_modules_def)
next
  fix m :: LearningModuleScheduler
  assume m: "estimated_hours m = 10" "sm_status m \<noteq> completed"
    and s: "1 \<le> start_date" and e: "start_date + 7 \<le> MAXORDINAL"
  have a: "\<forall>x\<in>set [m]. sm_status x \<noteq> completed \<longrightarrow> 0 \<le> estimated_hours x" using m by simp
  have b: "spec_final_cursor [m] 2 start_date \<le> MAXORDINAL"
    using m e by (simp add: spec_days_10_2)
  have "schedule_modules [m] (2 * 60) start_date [] = Inr ([] @ spec_allocate [m] 2 start_date)"
    by (rule schedule_modules_run [OF _ a s b]) simp
  then have run: "create_calendar_from_modules [m] 2 start_date = Inr (spec_allocate [m] 2 start_date)"
    by (simp add: create_calendar_from_modules_def)
  have "map (\<lambda>s. (activity_type s, duration_minutes s)) (spec_allocate [m] 2 start_date)
         = [(learning, 120), (learning, 120), (learning, 120), (learning, 120),
            (learning, 120), (coding_practice, 60), (viva, 30)]"
    using m by (simp add: spec_module_slots_def spec_days_10_2 upt_5 spec_slot_def Let_def)
  with run show "\<exists>cal. create_calendar_from_modules [m] 2 start_date = Inr cal
                 \<and> map (\<lambda>s. (activity_type s, duration_minutes s)) cal
                     = [(learning, 120), (learning, 120), (learning, 120), (learning, 120),
                        (learning, 120), (coding_practice, 60), (viva, 30)]"
    by (intro exI [of _ "spec_allocate [m] 2 start_date"] conjI)
qed

theorem allocator_matches_specification_witness:
  "\<exists>cal. create_calendar_from_modules demo_curriculum 2 738991 = Inr cal
     \<and> map (\<lambda>s. (day s, duration_minutes s, activity_type s)) cal =
        [(''Monday'', 120, learning), (''Tuesday'', 120, learning), (''Wednesday'', 120, learning),
         (''Thursday'', 120, learning), (''Friday'', 120, learning),
         (''Saturday'', 60, coding_practice), (''Sunday'', 30, viva),
         (''Monday'', 120, learning), (''Tuesday'', 120, learning), (''Wednesday'', 120, learning),
         (''Thursday'', 60, coding_practice), (''Friday'', 30, viva),
         (''Saturday'', 120, learning), (''Sunday'', 120, learning), (''Monday'', 60, learning),
         (''Tuesday'', 60, coding_practice), (''Wednesday'', 30, viva)]"
proof -
  have a: "(0::int) < 2" by simp
  have b: "\<forall>m\<in>set demo_curriculum. sm_status m \<noteq> completed \<longrightarrow> 0 \<le> estimated_hours m"
    by (simp add: demo_curriculum_def demo_sched_module_def)
  have c: "(1::int) \<le> 738991" by simp
  have d: "spec_final_cursor demo_curriculum 2 738991 \<le> MAXORDINAL"
    by (simp add: demo_curriculum_def demo_sched_module_def spec_days_10_2 spec_days_6_2
        spec_days_5_2 MAXORDINAL_def)
  have s: "map (\<lambda>s. (day s, duration_minutes s, activity_type s))
             (spec_allocate demo_curriculum 2 738991) =
        [(''Monday'', 120, learning), (''Tuesday'', 120, learning), (''Wednesday'', 120, learning),
         (''Thursday'', 120, learning), (''Friday'', 120, learning),
         (''Saturday'', 60, coding_practice), (''Sunday'', 30, viva),
         (''Monday'', 120, learning), (''Tuesday'', 120, learning), (''Wednesday'', 120, learning),
         (''Thursday'', 60, coding_practice), (''Friday'', 30, viva),
         (''Saturday'', 120, learning), (''Sunday'', 120, learning), (''Monday'', 60, learning),
         (''Tuesday'', 60, coding_practice), (''Wednesday'', 30, viva)]"
    by (simp add: demo_curriculum_def demo_sched_module_def spec_module_slots_def
        spec_days_10_2 spec_days_6_2 spec_days_5_2 upt_5 upt_3 spec_slot_def day_label_def
        weekday_def days_of_week_def Let_def)
  from allocator_matches_specification [OF a b, of 738991, THEN conjunct2, THEN conjunct1] c d
  have "create_calendar_from_modules demo_curriculum 2 738991
          = Inr (spec_allocate demo_curriculum 2 738991)" by simp
  with s show ?thesis by simp
qed

end
